theory Spec2Isabelle
  imports Complex_Main "HOL-Library.Sublist"
begin

section \<open>JavaScript numbers\<close>

text \<open>
  The server (backend/server.js) computes with JavaScript numbers.  They are modelled as
  exact reals together with the three special values \<open>NaN\<close>, \<open>+Infinity\<close> and
  \<open>-Infinity\<close>: arithmetic on finite values is exact (no rounding to 53 bits, no overflow,
  no negative zero), and the special values follow ECMAScript.  What the program does with
  a non-numeric input is decided by \<open>NaN\<close>, which is modelled as it behaves: it
  propagates through arithmetic, \<open>Math.min\<close> and \<open>Math.max\<close>, and every comparison with it
  is false.  The rounding is added in the section on binary64 arithmetic, for the risk
  score and the zone scores, whose values depend on it.
\<close>

datatype jsnum = NaN | Num real | PInf | NInf

fun js_lt :: "jsnum \<Rightarrow> jsnum \<Rightarrow> bool" where
  "js_lt (Num x) (Num y) = (x < y)"
| "js_lt (Num x) PInf = True"
| "js_lt NInf (Num y) = True"
| "js_lt NInf PInf = True"
| "js_lt _ _ = False"

fun js_le :: "jsnum \<Rightarrow> jsnum \<Rightarrow> bool" where
  "js_le (Num x) (Num y) = (x \<le> y)"
| "js_le NaN _ = False"
| "js_le _ NaN = False"
| "js_le NInf _ = True"
| "js_le _ PInf = True"
| "js_le _ _ = False"

definition js_gt :: "jsnum \<Rightarrow> jsnum \<Rightarrow> bool" where
  "js_gt a b = js_lt b a"

definition js_ge :: "jsnum \<Rightarrow> jsnum \<Rightarrow> bool" where
  "js_ge a b = js_le b a"

text \<open>\<open>Math.min\<close> and \<open>Math.max\<close> of two arguments: \<open>NaN\<close> if either is \<open>NaN\<close>.\<close>

definition Math_min :: "jsnum \<Rightarrow> jsnum \<Rightarrow> jsnum" where
  "Math_min a b = (if a = NaN \<or> b = NaN then NaN else if js_lt b a then b else a)"

definition Math_max :: "jsnum \<Rightarrow> jsnum \<Rightarrow> jsnum" where
  "Math_max a b = (if a = NaN \<or> b = NaN then NaN else if js_lt a b then b else a)"

fun js_neg :: "jsnum \<Rightarrow> jsnum" where
  "js_neg NaN = NaN"
| "js_neg (Num x) = Num (- x)"
| "js_neg PInf = NInf"
| "js_neg NInf = PInf"

fun js_add :: "jsnum \<Rightarrow> jsnum \<Rightarrow> jsnum" where
  "js_add (Num x) (Num y) = Num (x + y)"
| "js_add NaN _ = NaN"
| "js_add _ NaN = NaN"
| "js_add PInf NInf = NaN"
| "js_add NInf PInf = NaN"
| "js_add PInf _ = PInf"
| "js_add _ PInf = PInf"
| "js_add NInf _ = NInf"
| "js_add _ NInf = NInf"

definition js_sub :: "jsnum \<Rightarrow> jsnum \<Rightarrow> jsnum" where
  "js_sub a b = js_add a (js_neg b)"

text \<open>The sign of a value, and the infinity (or \<open>NaN\<close> for sign 0) of a given sign.\<close>

fun sign_of :: "jsnum \<Rightarrow> real" where
  "sign_of NaN = 0"
| "sign_of (Num x) = sgn x"
| "sign_of PInf = 1"
| "sign_of NInf = - 1"

definition inf_of_sign :: "real \<Rightarrow> jsnum" where
  "inf_of_sign s = (if 0 < s then PInf else if s < 0 then NInf else NaN)"

fun js_mul :: "jsnum \<Rightarrow> jsnum \<Rightarrow> jsnum" where
  "js_mul (Num x) (Num y) = Num (x * y)"
| "js_mul NaN _ = NaN"
| "js_mul _ NaN = NaN"
| "js_mul a b = inf_of_sign (sign_of a * sign_of b)"

text \<open>
  Division.  A finite value divided by zero is an infinity of the dividend's sign, and
  \<open>0 / 0\<close> is \<open>NaN\<close> (HOL's \<open>x / 0 = 0\<close> is not used).
\<close>

fun js_div :: "jsnum \<Rightarrow> jsnum \<Rightarrow> jsnum" where
  "js_div (Num x) (Num y) = (if y = 0 then inf_of_sign (sgn x) else Num (x / y))"
| "js_div NaN _ = NaN"
| "js_div _ NaN = NaN"
| "js_div (Num x) _ = Num 0"
| "js_div a (Num y) = inf_of_sign (sign_of a * (if y < 0 then - 1 else 1))"
| "js_div _ _ = NaN"

text \<open>\<open>Math.round\<close>: the nearest integer, a tie going up.\<close>

fun Math_round :: "jsnum \<Rightarrow> jsnum" where
  "Math_round (Num x) = Num (of_int \<lfloor>x + 1 / 2\<rfloor>)"
| "Math_round v = v"

section \<open>Strings and numbers\<close>

text \<open>
  Strings are lists of characters; a character stands for a UTF-16 code unit below 256.
\<close>

definition digit_char :: "nat \<Rightarrow> char" where
  "digit_char d = ''0123456789'' ! (d mod 10)"

fun digits_of :: "nat \<Rightarrow> string" where
  "digits_of n = (if n < 10 then [digit_char n] else digits_of (n div 10) @ [digit_char (n mod 10)])"

declare digits_of.simps [simp del]

definition is_digit :: "char \<Rightarrow> bool" where
  "is_digit c = (48 \<le> (of_char c :: nat) \<and> (of_char c :: nat) \<le> 57)"

definition digit_val :: "char \<Rightarrow> nat" where
  "digit_val c = of_char c - 48"

definition digits_val :: "string \<Rightarrow> nat" where
  "digits_val ds = foldl (\<lambda>a c. 10 * a + digit_val c) 0 ds"

text \<open>
  \<open>Number.prototype.toString\<close>.  For an integer of magnitude at most \<open>2 ^ 53\<close> the result
  is its decimal numeral.  For every other finite value the host prints the shortest
  decimal that reads back as the same double, which exact reals cannot determine: that
  rendering is the parameter \<open>h\<close>.
\<close>

definition numToString :: "(real \<Rightarrow> string) \<Rightarrow> jsnum \<Rightarrow> string" where
  "numToString h v =
     (case v of
        NaN \<Rightarrow> ''NaN''
      | PInf \<Rightarrow> ''Infinity''
      | NInf \<Rightarrow> ''-Infinity''
      | Num x \<Rightarrow>
          if x = of_int \<lfloor>x\<rfloor> \<and> \<bar>x\<bar> \<le> 2 ^ 53
          then (if x < 0 then ''-'' else '''') @ digits_of (nat \<bar>\<lfloor>x\<rfloor>\<bar>)
          else h x)"

text \<open>
  \<open>Number.prototype.toFixed(f)\<close>: for a finite \<open>x\<close> below \<open>10 ^ 21\<close> in magnitude, the
  integer \<open>n\<close> with \<open>n / 10 ^ f\<close> nearest to \<open>\<bar>x\<bar>\<close> (the larger \<open>n\<close> on a tie), padded with zeros
  to at least \<open>f + 1\<close> digits, with a point before the last \<open>f\<close> digits and the sign in
  front.
\<close>

definition toFixed :: "(real \<Rightarrow> string) \<Rightarrow> nat \<Rightarrow> jsnum \<Rightarrow> string" where
  "toFixed h f v =
     (case v of
        Num x \<Rightarrow>
          if 10 ^ 21 \<le> \<bar>x\<bar> then numToString h v
          else
            (let n = nat \<lfloor>\<bar>x\<bar> * 10 ^ f + 1 / 2\<rfloor>;
                 m = digits_of n;
                 m' = (if length m \<le> f then replicate (f + 1 - length m) (CHR ''0'') @ m else m);
                 k = length m'
             in (if x < 0 then ''-'' else '''') @
                (if f = 0 then m' else take (k - f) m' @ ''.'' @ drop (k - f) m'))
      | _ \<Rightarrow> numToString h v)"

text \<open>
  \<open>StringToNumber\<close>, the conversion \<open>Number(s)\<close> applies to a string: white space is
  trimmed, the empty string is 0, and the rest must be a binary, octal or hexadecimal
  integer literal or a signed decimal literal; everything else is \<open>NaN\<close>.
\<close>

definition is_ws :: "char \<Rightarrow> bool" where
  "is_ws c = ((of_char c :: nat) \<in> {9, 10, 11, 12, 13, 32, 160})"

definition trim :: "string \<Rightarrow> string" where
  "trim s = rev (dropWhile is_ws (rev (dropWhile is_ws s)))"

definition radix_digit :: "char \<Rightarrow> nat option" where
  "radix_digit c =
     (let k = (of_char c :: nat)
      in if 48 \<le> k \<and> k \<le> 57 then Some (k - 48)
         else if 97 \<le> k \<and> k \<le> 102 then Some (k - 87)
         else if 65 \<le> k \<and> k \<le> 70 then Some (k - 55)
         else None)"

fun radix_val :: "nat \<Rightarrow> nat \<Rightarrow> string \<Rightarrow> nat option" where
  "radix_val b acc [] = Some acc"
| "radix_val b acc (c # cs) =
     (case radix_digit c of
        None \<Rightarrow> None
      | Some d \<Rightarrow> if d < b then radix_val b (b * acc + d) cs else None)"

definition NonDecimalIntegerLiteral :: "string \<Rightarrow> nat option" where
  "NonDecimalIntegerLiteral t =
     (case t of
        z # p # d # ds \<Rightarrow>
          if z \<noteq> CHR ''0'' then None
          else if p = CHR ''x'' \<or> p = CHR ''X'' then radix_val 16 0 (d # ds)
          else if p = CHR ''o'' \<or> p = CHR ''O'' then radix_val 8 0 (d # ds)
          else if p = CHR ''b'' \<or> p = CHR ''B'' then radix_val 2 0 (d # ds)
          else None
      | _ \<Rightarrow> None)"

definition scale10 :: "real \<Rightarrow> int \<Rightarrow> real" where
  "scale10 m e = (if 0 \<le> e then m * 10 ^ nat e else m / 10 ^ nat (- e))"

definition ExponentPart :: "string \<Rightarrow> int option" where
  "ExponentPart r =
     (case r of
        [] \<Rightarrow> Some 0
      | c # r' \<Rightarrow>
          if c = CHR ''e'' \<or> c = CHR ''E'' then
            (let neg = (r' \<noteq> [] \<and> hd r' = CHR ''-'');
                 ds = (if r' \<noteq> [] \<and> (hd r' = CHR ''-'' \<or> hd r' = CHR ''+'') then tl r' else r')
             in if ds \<noteq> [] \<and> list_all is_digit ds
                then Some (if neg then - int (digits_val ds) else int (digits_val ds))
                else None)
          else None)"

definition StrUnsignedDecimalLiteral :: "string \<Rightarrow> jsnum" where
  "StrUnsignedDecimalLiteral s =
     (if s = ''Infinity'' then PInf
      else
        (let ip = takeWhile is_digit s; r1 = dropWhile is_digit s
         in if r1 \<noteq> [] \<and> hd r1 = CHR ''.'' then
              (let fp = takeWhile is_digit (tl r1); r3 = dropWhile is_digit (tl r1)
               in if ip = [] \<and> fp = [] then NaN
                  else (case ExponentPart r3 of
                          None \<Rightarrow> NaN
                        | Some e \<Rightarrow>
                            Num (scale10 (real (digits_val ip)
                                   + real (digits_val fp) / 10 ^ length fp) e)))
            else if ip = [] then NaN
            else (case ExponentPart r1 of
                    None \<Rightarrow> NaN
                  | Some e \<Rightarrow> Num (scale10 (real (digits_val ip)) e))))"

definition StrDecimalLiteral :: "string \<Rightarrow> jsnum" where
  "StrDecimalLiteral s =
     (case s of
        [] \<Rightarrow> NaN
      | c # r \<Rightarrow>
          if c = CHR ''+'' then StrUnsignedDecimalLiteral r
          else if c = CHR ''-'' then js_neg (StrUnsignedDecimalLiteral r)
          else StrUnsignedDecimalLiteral s)"

definition StringToNumber :: "string \<Rightarrow> jsnum" where
  "StringToNumber s =
     (let t = trim s
      in if t = [] then Num 0
         else (case NonDecimalIntegerLiteral t of
                 Some n \<Rightarrow> Num (real n)
               | None \<Rightarrow> StrDecimalLiteral t))"

text \<open>
  JSON values, as \<open>express.json()\<close> hands them to a handler in \<open>req.body\<close>.  A JSON
  number is taken at its exact value.
\<close>

datatype json =
    JNull
  | JBool bool
  | JNum real
  | JStr string
  | JArr "json list"
  | JObj "(string \<times> json) list"

text \<open>
  \<open>Number(v)\<close> for a JSON value.  \<open>null\<close> is 0, \<open>true\<close> is 1, a string goes through
  \<open>StringToNumber\<close>.  An object or array is first converted to a string: a plain object
  gives \<open>[object Object]\<close>, hence \<open>NaN\<close>; an array gives its elements joined by commas
  (\<open>null\<close> as the empty string), so the empty array is 0, an array of two or more elements
  contains a comma and is \<open>NaN\<close>, and a one-element array converts as the string of its
  element does.
\<close>

fun ToNumber :: "json \<Rightarrow> jsnum" where
  "ToNumber JNull = Num 0"
| "ToNumber (JBool b) = Num (if b then 1 else 0)"
| "ToNumber (JNum x) = Num x"
| "ToNumber (JStr s) = StringToNumber s"
| "ToNumber (JObj kvs) = NaN"
| "ToNumber (JArr []) = Num 0"
| "ToNumber (JArr [JNull]) = Num 0"
| "ToNumber (JArr [JBool b]) = NaN"
| "ToNumber (JArr [JObj kvs]) = NaN"
| "ToNumber (JArr [e]) = ToNumber e"
| "ToNumber (JArr (e # e' # es)) = NaN"

text \<open>
  \<open>body[k]\<close>: the member \<open>k\<close> of a parsed JSON object (the last one, if the text repeated
  the key); \<open>None\<close> stands for \<open>undefined\<close>.  Only the three field names of the simulation
  are ever looked up, and no array or primitive has a property of such a name.
\<close>

definition get_prop :: "json \<Rightarrow> string \<Rightarrow> json option" where
  "get_prop b k = (case b of JObj kvs \<Rightarrow> map_of (rev kvs) k | _ \<Rightarrow> None)"

text \<open>\<open>s.includes(sub)\<close>: \<open>sub\<close> occurs in \<open>s\<close> as a contiguous substring.\<close>

fun includes_str :: "string \<Rightarrow> string \<Rightarrow> bool" where
  "includes_str [] sub = (sub = [])"
| "includes_str (c # cs) sub = (prefix sub (c # cs) \<or> includes_str cs sub)"

text \<open>\<open>a === b\<close> on numbers.\<close>

fun js_eq :: "jsnum \<Rightarrow> jsnum \<Rightarrow> bool" where
  "js_eq NaN _ = False"
| "js_eq _ NaN = False"
| "js_eq a b = (a = b)"

section \<open>Binary64 arithmetic\<close>

text \<open>
  The sections above take a JavaScript number at its exact value.  That is what the
  program does wherever it compares, clamps, or reads and prints a number, and it keeps
  every property that rounding preserves; but the value of the risk score and of a zone
  score depends on the rounding of each operation.  This section gives the arithmetic of
  the source as it is: IEEE 754 binary64, every operation rounded to the nearest double, a
  tie going to the even significand.

  \<open>expo x\<close> is the exponent of the binade of \<open>x\<close>, not below -1022 (the subnormal numbers
  share the exponent -1022); a double of that binade is a multiple of \<open>2 ^ (expo x - 52)\<close>.
\<close>

function binade_up :: "real \<Rightarrow> int" where
  "binade_up x = (if 2 \<le> x then binade_up (x / 2) + 1 else 0)"
  by pat_completeness auto
termination
  by (relation "measure (\<lambda>x. nat \<lfloor>x\<rfloor>)") (auto, linarith)

function binade_down :: "nat \<Rightarrow> real \<Rightarrow> int" where
  "binade_down k x = (if x < 1 \<and> k < 1022 then binade_down (Suc k) (2 * x) else - int k)"
  by pat_completeness auto
termination
  by (relation "measure (\<lambda>(k, x). 1022 - k)") auto

declare binade_up.simps [simp del] binade_down.simps [simp del]

definition expo :: "real \<Rightarrow> int" where
  "expo x = (if 1 \<le> \<bar>x\<bar> then binade_up \<bar>x\<bar> else binade_down 0 \<bar>x\<bar>)"

text \<open>The nearest integer, a tie going to the even one.\<close>

definition round_even :: "real \<Rightarrow> int" where
  "round_even y =
     (let n = \<lfloor>y\<rfloor>; d = y - of_int n
      in if d < 1 / 2 then n else if 1 / 2 < d then n + 1 else if even n then n else n + 1)"

text \<open>
  \<open>fl x\<close> is the double nearest to \<open>x\<close>, the exponent unbounded above; \<open>to_double\<close> is the
  result of an operation whose exact value is \<open>x\<close>: an infinity when \<open>fl x\<close> is beyond the
  largest double.  \<open>round_num\<close> rounds the number in a value.
\<close>

definition fl :: "real \<Rightarrow> real" where
  "fl x = of_int (round_even (x / 2 powi (expo x - 52))) * 2 powi (expo x - 52)"

definition to_double :: "real \<Rightarrow> jsnum" where
  "to_double x = (if 2 ^ 1024 \<le> \<bar>fl x\<bar> then (if 0 < x then PInf else NInf) else Num (fl x))"

definition round_num :: "jsnum \<Rightarrow> jsnum" where
  "round_num v = (case v of Num x \<Rightarrow> to_double x | _ \<Rightarrow> v)"

text \<open>
  A decimal literal of the source, the four operations, and \<open>Number(s)\<close> on a string: each
  is the exact result, rounded.
\<close>

definition lit :: "real \<Rightarrow> jsnum" where
  "lit x = to_double x"

definition add64 :: "jsnum \<Rightarrow> jsnum \<Rightarrow> jsnum" where
  "add64 a b = round_num (js_add a b)"

definition sub64 :: "jsnum \<Rightarrow> jsnum \<Rightarrow> jsnum" where
  "sub64 a b = round_num (js_sub a b)"

definition mul64 :: "jsnum \<Rightarrow> jsnum \<Rightarrow> jsnum" where
  "mul64 a b = round_num (js_mul a b)"

definition div64 :: "jsnum \<Rightarrow> jsnum \<Rightarrow> jsnum" where
  "div64 a b = round_num (js_div a b)"

definition StringToNumber64 :: "string \<Rightarrow> jsnum" where
  "StringToNumber64 s = round_num (StringToNumber s)"

section \<open>State\<close>

record simulation =
  rainfallMm :: jsnum
  seismicMag :: jsnum
  blastingLevel :: jsnum

datatype severity = Low | Medium | High

text \<open>
  An alert.  \<open>alert_id\<close> is the field \<open>id\<close> (an integer: a seed number or a clock reading in
  milliseconds); \<open>time\<close> is the instant of creation in milliseconds, which the source
  stores as its ISO-8601 text.
\<close>

record alert =
  alert_id :: int
  zone :: string
  msg :: string
  severity :: severity
  time :: int
  acknowledged :: bool

record zone_def =
  zone_id :: int
  name :: string
  lat :: real
  lng :: real
  baseRisk :: real

record state =
  simulation :: simulation
  alerts :: "alert list"
  settings :: json

definition zones :: "zone_def list" where
  "zones =
     [\<lparr>zone_id = 1, name = ''Sector A - West Wall'', lat = 20.594, lng = 78.962, baseRisk = 0.75\<rparr>,
      \<lparr>zone_id = 2, name = ''Sector B - East Wall'', lat = 20.601, lng = 78.948, baseRisk = 0.45\<rparr>,
      \<lparr>zone_id = 3, name = ''Sector C - North Slope'', lat = 20.582, lng = 78.972, baseRisk = 0.25\<rparr>]"

definition initial_settings :: json where
  "initial_settings =
     JObj [(''profile'', JObj [(''name'', JStr ''Mine Admin''), (''email'', JStr ''admin@minescope.ai''),
                              (''role'', JStr ''Admin'')]),
           (''preferences'', JObj [(''refreshInterval'', JNum 10), (''units'', JStr ''metric''),
                                  (''language'', JStr ''en''), (''theme'', JStr ''dark'')]),
           (''alerts'', JObj [(''vibrationThreshold'', JNum 3), (''crackThreshold'', JNum 2),
                             (''tempThreshold'', JNum 35), (''notifyEmail'', JBool True),
                             (''notifySMS'', JBool False), (''notifyPush'', JBool True)]),
           (''ai'', JObj [(''sensitivity'', JStr ''balanced''), (''explainable'', JBool True)])]"

text \<open>The state at process start; \<open>t0\<close> is the clock then.\<close>

definition initial_state :: "int \<Rightarrow> state" where
  "initial_state t0 =
     \<lparr>simulation = \<lparr>rainfallMm = Num 0, seismicMag = Num 0, blastingLevel = Num 0\<rparr>,
      alerts =
        [\<lparr>alert_id = 1, zone = ''Sector A - West Wall'',
          msg = ''Rockfall probability exceeded 85% threshold'', severity = High,
          time = t0, acknowledged = False\<rparr>,
         \<lparr>alert_id = 2, zone = ''Sensor Network'',
          msg = ''Piezometer S002 showing irregular readings'', severity = Medium,
          time = t0 - 3600 * 1000, acknowledged = False\<rparr>],
      settings = initial_settings\<rparr>"

section \<open>The risk engine\<close>

text \<open>
  The functions read the module's variables; here they take them as arguments: the host's
  number rendering \<open>h\<close>, the zone list \<open>zs\<close> (the constant \<open>zones\<close> in the program) and the
  state.  \<open>computeRiskScore\<close> returns the text that \<open>toFixed(1)\<close> produces.
\<close>

definition computeRiskScore :: "(real \<Rightarrow> string) \<Rightarrow> zone_def list \<Rightarrow> simulation \<Rightarrow> string" where
  "computeRiskScore h zs sim =
     (let avgBase = js_div (foldl (\<lambda>s z. js_add s (Num (baseRisk z))) (Num 0) zs)
                           (Num (real (length zs)));
          rainInfluence = Math_min (Num 1) (js_div (rainfallMm sim) (Num 200));
          seismicInfluence = Math_min (Num 1) (js_div (seismicMag sim) (Num 8));
          blastInfluence = Math_min (Num 1) (js_div (blastingLevel sim) (Num 100));
          composite =
            js_add (js_add (js_add (js_mul avgBase (Num 0.6)) (js_mul rainInfluence (Num 0.2)))
                           (js_mul seismicInfluence (Num 0.15)))
                   (js_mul blastInfluence (Num 0.05))
      in toFixed h 1 (js_mul composite (Num 10)))"

text \<open>
  \<open>computeRiskScore\<close> in the arithmetic of the source: the same expression, every
  operation rounded to binary64 and every decimal literal (the base risks of the zone list
  among them) read as the nearest double.  The divisors 200, 8, 100 and the factor 10 are
  doubles as they stand, and so is the number of zones.
\<close>

definition computeRiskScore64 :: "(real \<Rightarrow> string) \<Rightarrow> zone_def list \<Rightarrow> simulation \<Rightarrow> string" where
  "computeRiskScore64 h zs sim =
     (let avgBase = div64 (foldl (\<lambda>s z. add64 s (lit (baseRisk z))) (Num 0) zs)
                          (Num (real (length zs)));
          rainInfluence = Math_min (Num 1) (div64 (rainfallMm sim) (Num 200));
          seismicInfluence = Math_min (Num 1) (div64 (seismicMag sim) (Num 8));
          blastInfluence = Math_min (Num 1) (div64 (blastingLevel sim) (Num 100));
          composite =
            add64 (add64 (add64 (mul64 avgBase (lit 0.6)) (mul64 rainInfluence (lit 0.2)))
                         (mul64 seismicInfluence (lit 0.15)))
                  (mul64 blastInfluence (lit 0.05))
      in toFixed h 1 (mul64 composite (Num 10)))"

text \<open>
  \<open>maybeCreateAlert\<close>.  \<open>now\<close> is the clock (every \<open>Date.now()\<close> and \<open>new Date()\<close> of one
  callback reads the same instant) and \<open>r\<close> the value \<open>Math.random()\<close> returns.
\<close>

definition maybeCreateAlert ::
    "(real \<Rightarrow> string) \<Rightarrow> zone_def list \<Rightarrow> int \<Rightarrow> real \<Rightarrow> state \<Rightarrow> state" where
  "maybeCreateAlert h zs now r st =
     (let currentRisk = StringToNumber (computeRiskScore h zs (simulation st));
          as1 =
            (if js_ge currentRisk (Num 7.5) \<and>
                \<not> list_ex (\<lambda>a. includes_str (msg a) ''probability exceeded'' \<and> \<not> acknowledged a)
                     (alerts st)
             then \<lparr>alert_id = now, zone = ''Sector A - West Wall'',
                   msg = ''Rockfall probability exceeded ''
                         @ toFixed h 0 (js_mul currentRisk (Num 10)) @ ''% threshold'',
                   severity = High, time = now, acknowledged = False\<rparr> # alerts st
             else alerts st);
          as2 =
            (if js_lt (Num r) (js_add (Num 0.02) (js_div (blastingLevel (simulation st)) (Num 5000)))
             then \<lparr>alert_id = now + 1, zone = ''Sensor Network'',
                   msg = ''Sensor malfunction: irregular readings detected'',
                   severity = Medium, time = now, acknowledged = False\<rparr> # as1
             else as1);
          as3 = (if 50 < length as2 then take 50 as2 else as2)
      in st\<lparr>alerts := as3\<rparr>)"

text \<open>
  The callback of \<open>setInterval\<close>.  \<open>r1\<close>, \<open>r2\<close> and \<open>r3\<close> are the values of the three
  \<open>Math.random()\<close> calls (the first is made only when it is raining).
\<close>

definition tick ::
    "(real \<Rightarrow> string) \<Rightarrow> zone_def list \<Rightarrow> int \<Rightarrow> real \<Rightarrow> real \<Rightarrow> real \<Rightarrow> state \<Rightarrow> state" where
  "tick h zs now r1 r2 r3 st =
     (let sim = simulation st;
          sim1 =
            (if js_gt (rainfallMm sim) (Num 0)
             then sim\<lparr>rainfallMm :=
                        Math_max (Num 0) (Math_min (Num 300)
                          (js_add (rainfallMm sim) (js_sub (js_mul (Num r1) (Num 4)) (Num 2))))\<rparr>
             else sim);
          sim2 =
            sim1\<lparr>seismicMag :=
                   Math_max (Num 0) (Math_min (Num 10)
                     (js_add (seismicMag sim1) (js_sub (js_mul (Num r2) (Num 0.2)) (Num 0.1))))\<rparr>
      in maybeCreateAlert h zs now r3 (st\<lparr>simulation := sim2\<rparr>))"

text \<open>
  \<open>POST /api/simulation\<close>.  \<open>body\<close> is \<open>req.body || {}\<close>; \<open>r\<close> is the value of
  \<open>Math.random()\<close>.  The response is the message and the simulation.
\<close>

definition post_simulation ::
    "(real \<Rightarrow> string) \<Rightarrow> int \<Rightarrow> real \<Rightarrow> json \<Rightarrow> state \<Rightarrow> (string \<times> simulation) \<times> state" where
  "post_simulation h now r body st =
     (let sim = simulation st;
          sim1 = (case get_prop body ''rainfallMm'' of
                    None \<Rightarrow> sim
                  | Some v \<Rightarrow> sim\<lparr>rainfallMm := Math_max (Num 0) (Math_min (Num 300) (ToNumber v))\<rparr>);
          sim2 = (case get_prop body ''seismicMag'' of
                    None \<Rightarrow> sim1
                  | Some v \<Rightarrow> sim1\<lparr>seismicMag := Math_max (Num 0) (Math_min (Num 10) (ToNumber v))\<rparr>);
          sim3 = (case get_prop body ''blastingLevel'' of
                    None \<Rightarrow> sim2
                  | Some v \<Rightarrow> sim2\<lparr>blastingLevel := Math_max (Num 0) (Math_min (Num 100) (ToNumber v))\<rparr>);
          as1 =
            (if js_gt (rainfallMm sim3) (Num 150) \<or> js_gt (seismicMag sim3) (Num 6)
             then \<lparr>alert_id = now + \<lfloor>r * 1000\<rfloor>, zone = ''Simulated'',
                   msg = ''Simulation triggered HIGH-RISK conditions (rain=''
                         @ numToString h (rainfallMm sim3) @ '', seismic=''
                         @ numToString h (seismicMag sim3) @ '')'',
                   severity = High, time = now, acknowledged = False\<rparr> # alerts st
             else alerts st)
      in ((''Simulation updated'', sim3), st\<lparr>simulation := sim3, alerts := as1\<rparr>))"

text \<open>
  \<open>POST /api/alerts/:id/ack\<close>.  \<open>find\<close> returns the first alert whose id is the number the
  path parameter converts to; the assignment changes that element of the list.
\<close>

datatype error = NotFound string | InternalServerError

fun acknowledge :: "jsnum \<Rightarrow> alert list \<Rightarrow> alert list" where
  "acknowledge i [] = []"
| "acknowledge i (a # as) =
     (if js_eq (Num (of_int (alert_id a))) i then a\<lparr>acknowledged := True\<rparr> # as
      else a # acknowledge i as)"

definition post_ack :: "string \<Rightarrow> state \<Rightarrow> (error + string \<times> alert) \<times> state" where
  "post_ack param st =
     (let i = StringToNumber param
      in case find (\<lambda>a. js_eq (Num (of_int (alert_id a))) i) (alerts st) of
           None \<Rightarrow> (Inl (NotFound ''Alert not found''), st)
         | Some a \<Rightarrow>
             (Inr (''Acknowledged'', a\<lparr>acknowledged := True\<rparr>),
              st\<lparr>alerts := acknowledge i (alerts st)\<rparr>))"

section \<open>The query handlers\<close>

text \<open>
  Each handler takes what it reads (the clock \<open>now\<close>, the values of its \<open>Math.random()\<close>
  calls, the request and the state) and returns its response with the state it leaves.
  A handler that draws several random values takes them as a function of the position of
  the draw.
\<close>

record sensor_def =
  sensor_id :: int
  code :: string
  sensor_type :: string
  sensor_unit :: string
  location :: string
  battery :: real

definition sensorDefs :: "sensor_def list" where
  "sensorDefs =
     [\<lparr>sensor_id = 1, code = ''S001'', sensor_type = ''Inclinometer'', sensor_unit = ''mm'',
       location = ''Sector A - West Wall'', battery = 0.92\<rparr>,
      \<lparr>sensor_id = 2, code = ''S002'', sensor_type = ''Piezometer'', sensor_unit = ''kPa'',
       location = ''Sensor Network'', battery = 0.69\<rparr>,
      \<lparr>sensor_id = 3, code = ''S003'', sensor_type = ''Seismometer'', sensor_unit = ''g'',
       location = ''Sector B - East Wall'', battery = 0.67\<rparr>,
      \<lparr>sensor_id = 4, code = ''S004'', sensor_type = ''Weather Station'', sensor_unit = ''mm'',
       location = ''Env Station'', battery = 0.69\<rparr>,
      \<lparr>sensor_id = 5, code = ''S005'', sensor_type = ''Strain Gauge'', sensor_unit = ''mm'',
       location = ''Sector C'', battery = 0.78\<rparr>]"

text \<open>\<open>rnd(min, max)\<close> with the value \<open>u\<close> of \<open>Math.random()\<close>; every call uses the defaults 0 and 1.\<close>

definition rnd :: "real \<Rightarrow> real \<Rightarrow> real \<Rightarrow> jsnum" where
  "rnd u mn mx = js_add (js_mul (Num u) (js_sub (Num mx) (Num mn))) (Num mn)"

text \<open>The same in binary64, for the zone scores of the map.\<close>

definition rnd64 :: "real \<Rightarrow> real \<Rightarrow> real \<Rightarrow> jsnum" where
  "rnd64 u mn mx = add64 (mul64 (Num u) (sub64 (Num mx) (Num mn))) (Num mn)"

definition generateSensorReading ::
    "(real \<Rightarrow> string) \<Rightarrow> sensor_def \<Rightarrow> real \<Rightarrow> simulation \<Rightarrow> string" where
  "generateSensorReading h d u sim =
     (if sensor_type d = ''Inclinometer'' then
        toFixed h 3 (js_add (js_add (js_add (Num 0.5) (js_mul (blastingLevel sim) (Num 0.02)))
                                    (js_mul (rainfallMm sim) (Num 0.01)))
                            (js_mul (rnd u 0 1) (Num 2)))
      else if sensor_type d = ''Piezometer'' then
        toFixed h 3 (js_add (js_add (Num 20) (js_mul (rainfallMm sim) (Num 0.4)))
                            (js_mul (rnd u 0 1) (Num 10)))
      else if sensor_type d = ''Seismometer'' then
        toFixed h 4 (Math_max (Num 0)
          (js_add (js_add (js_mul (seismicMag sim) (Num 0.01)) (js_mul (blastingLevel sim) (Num 0.005)))
                  (js_mul (rnd u 0 1) (Num 0.03))))
      else if sensor_type d = ''Weather Station'' then
        (if js_gt (rainfallMm sim) (Num 0) then toFixed h 1 (rainfallMm sim)
         else toFixed h 1 (js_mul (rnd u 0 1) (Num 5)))
      else if sensor_type d = ''Strain Gauge'' then
        toFixed h 4 (js_add (js_add (Num 0.05) (js_mul (blastingLevel sim) (Num 0.001)))
                            (js_mul (rnd u 0 1) (Num 0.2)))
      else toFixed h 2 (js_mul (rnd u 0 1) (Num 100)))"

definition generatePredictionSeries ::
    "(real \<Rightarrow> string) \<Rightarrow> zone_def list \<Rightarrow> (nat \<Rightarrow> real) \<Rightarrow> simulation
      \<Rightarrow> string list \<times> jsnum list" where
  "generatePredictionSeries h zs u sim =
     (let baseline = StringToNumber (computeRiskScore h zs sim);
          steps = [''Now'', ''1h'', ''3h'', ''6h'', ''12h'', ''24h''];
          vals = map (\<lambda>i.
                   let drift = js_add (js_add (js_mul (rainfallMm sim) (Num 0.01))
                                              (js_mul (seismicMag sim) (Num 0.2)))
                                      (js_sub (js_mul (rnd (u i) 0 1) (Num 2)) (Num 1));
                       val = Math_max (Num 0) (Math_min (Num 10)
                               (js_add baseline (js_mul drift (js_div (Num (real i)) (Num 2)))))
                   in js_div (Math_round (js_mul val (Num 10))) (Num 10))
                 [0 ..< length steps]
      in (steps, vals))"

definition generateAccuracyHistory :: "(nat \<Rightarrow> real) \<Rightarrow> string list \<times> jsnum list" where
  "generateAccuracyHistory u =
     ([''1 Week'', ''2 Weeks'', ''1 Month'', ''3 Months'', ''6 Months''],
      [Math_round (js_add (Num 88) (js_mul (rnd (u 0) 0 1) (Num 7))),
       Math_round (js_add (Num 85) (js_mul (rnd (u 1) 0 1) (Num 8))),
       Math_round (js_add (Num 80) (js_mul (rnd (u 2) 0 1) (Num 10))),
       Math_round (js_add (Num 78) (js_mul (rnd (u 3) 0 1) (Num 8))),
       Math_round (js_add (Num 75) (js_mul (rnd (u 4) 0 1) (Num 8)))])"

text \<open>\<open>GET /\<close> and \<open>GET /api/settings\<close>.\<close>

definition get_root :: "state \<Rightarrow> string \<times> state" where
  "get_root st = (''Rockfall Prediction Backend is Running'', st)"

definition get_settings :: "state \<Rightarrow> json \<times> state" where
  "get_settings st = (settings st, st)"

text \<open>\<open>GET /api/overview\<close>.\<close>

record overview =
  activeAlerts :: nat
  sensorsOnline :: string
  riskScore :: string
  weatherImpact :: string
  lastUpdated :: int

definition get_overview ::
    "(real \<Rightarrow> string) \<Rightarrow> zone_def list \<Rightarrow> int \<Rightarrow> state \<Rightarrow> overview \<times> state" where
  "get_overview h zs now st =
     (\<lparr>activeAlerts = length (filter (\<lambda>a. \<not> acknowledged a) (alerts st)),
       sensorsOnline =
         numToString h (Math_round (js_mul (Num (real (length sensorDefs))) (Num 0.9)))
           @ ''/'' @ numToString h (Num (real (length sensorDefs))),
       riskScore = computeRiskScore h zs (simulation st),
       weatherImpact =
         (if js_gt (rainfallMm (simulation st)) (Num 50) then ''High''
          else if js_gt (rainfallMm (simulation st)) (Num 10) then ''Moderate'' else ''Low''),
       lastUpdated = now\<rparr>,
      st)"

text \<open>
  \<open>GET /api/sensors\<close>.  For the sensor at position \<open>i\<close>, \<open>u i\<close> holds the four random values
  in the order of the calls: the reading, the offline chance, the warning chance (drawn
  only when the sensor is not offline) and the battery drain.
\<close>

record sensor_row =
  row_id :: int
  row_code :: string
  row_type :: string
  row_location :: string
  row_value :: string
  row_battery :: string
  status :: string
  lastUpdate :: int

definition get_sensors ::
    "(real \<Rightarrow> string) \<Rightarrow> int \<Rightarrow> (nat \<Rightarrow> real \<times> real \<times> real \<times> real) \<Rightarrow> state
      \<Rightarrow> sensor_row list \<times> state" where
  "get_sensors h now u st =
     (map (\<lambda>(i, d).
            case u i of (u1, u2, u3, u4) \<Rightarrow>
              let reading = generateSensorReading h d u1 (simulation st);
                  offlineChance = js_lt (Num u2) (Num 0.02)
              in \<lparr>row_id = sensor_id d, row_code = code d, row_type = sensor_type d,
                  row_location = location d,
                  row_value = reading @ '' '' @ sensor_unit d,
                  row_battery =
                    numToString h (Math_round
                      (js_mul (js_sub (Num (battery d)) (js_mul (Num u4) (Num 0.05))) (Num 100)))
                    @ ''%'',
                  status = (if offlineChance then ''offline''
                            else if js_lt (Num u3) (Num 0.05) then ''warning'' else ''online''),
                  lastUpdate = now\<rparr>)
          (enumerate 0 sensorDefs),
      st)"

text \<open>
  \<open>GET /api/sensors/:id/history\<close>: twelve entries a minute apart, the oldest first; \<open>u i\<close> is
  the random value of the entry \<open>i\<close> minutes old.
\<close>

definition get_sensor_history ::
    "(real \<Rightarrow> string) \<Rightarrow> int \<Rightarrow> (nat \<Rightarrow> real) \<Rightarrow> string \<Rightarrow> state
      \<Rightarrow> (jsnum \<times> (int \<times> string) list) \<times> state" where
  "get_sensor_history h now u param st =
     ((StringToNumber param,
       rev (map (\<lambda>i. (now - int i * 60000, toFixed h 3 (js_mul (Num (u i)) (Num 100))))
                [0 ..< 12])),
      st)"

text \<open>\<open>GET /api/alerts\<close>.\<close>

definition get_alerts :: "state \<Rightarrow> alert list \<times> state" where
  "get_alerts st = (take 20 (alerts st), st)"

text \<open>
  \<open>GET /api/predictions\<close>: the score, the series (draws \<open>u\<close>) and the accuracy history
  (draws \<open>v\<close>).
\<close>

definition get_predictions ::
    "(real \<Rightarrow> string) \<Rightarrow> zone_def list \<Rightarrow> (nat \<Rightarrow> real) \<Rightarrow> (nat \<Rightarrow> real) \<Rightarrow> state
      \<Rightarrow> (string \<times> (string list \<times> jsnum list) \<times> (string list \<times> jsnum list)) \<times> state" where
  "get_predictions h zs u v st =
     ((computeRiskScore h zs (simulation st),
       generatePredictionSeries h zs u (simulation st),
       generateAccuracyHistory v),
      st)"

text \<open>
  \<open>GET /api/map\<close>, in binary64, since the severity of a zone depends on the last bit of
  its score.  \<open>u i\<close> is the random value drawn for the zone at position \<open>i\<close>.  The
  severity is decided on \<open>score\<close>; the row carries \<open>Number(score.toFixed(2))\<close>.
\<close>

record zone_row = zone_def +
  score :: jsnum
  zone_severity :: severity

definition get_map ::
    "(real \<Rightarrow> string) \<Rightarrow> zone_def list \<Rightarrow> (nat \<Rightarrow> real) \<Rightarrow> state \<Rightarrow> zone_row list \<times> state" where
  "get_map h zs u st =
     (map (\<lambda>(i, z).
            let rainfallFactor = Math_min (Num 1) (div64 (rainfallMm (simulation st)) (Num 200));
                seismicFactor = Math_min (Num 1) (div64 (seismicMag (simulation st)) (Num 8));
                score = Math_min (Num 1)
                          (add64 (add64 (add64 (mul64 (lit (baseRisk z)) (lit 0.6))
                                               (mul64 rainfallFactor (lit 0.25)))
                                        (mul64 seismicFactor (lit 0.15)))
                                 (mul64 (rnd64 (u i) 0 1) (lit 0.05)));
                severity = (if js_gt score (lit 0.7) then High
                            else if js_gt score (lit 0.4) then Medium else Low)
            in zone_def.extend z
                 \<lparr>score = StringToNumber64 (toFixed h 2 score), zone_severity = severity\<rparr>)
          (enumerate 0 zs),
      st)"

text \<open>\<open>GET /api/simulation\<close>.\<close>

definition get_simulation :: "state \<Rightarrow> simulation \<times> state" where
  "get_simulation st = (simulation st, st)"

text \<open>\<open>GET /api/export/report\<close>.\<close>

record report =
  generatedAt :: int
  report_riskScore :: string
  report_activeAlerts :: nat
  report_sensorsOnline :: jsnum
  topAlerts :: "alert list"
  topZones :: "(int \<times> string) list"

definition export_report ::
    "(real \<Rightarrow> string) \<Rightarrow> zone_def list \<Rightarrow> int \<Rightarrow> state \<Rightarrow> report \<times> state" where
  "export_report h zs now st =
     (\<lparr>generatedAt = now,
       report_riskScore = computeRiskScore h zs (simulation st),
       report_activeAlerts = length (filter (\<lambda>a. \<not> acknowledged a) (alerts st)),
       report_sensorsOnline = Math_round (js_mul (Num (real (length sensorDefs))) (Num 0.9)),
       topAlerts = take 5 (alerts st),
       topZones = map (\<lambda>z. (zone_id z, name z)) zs\<rparr>,
      st)"

text \<open>
  \<open>POST /api/settings\<close>.  An object is a list of members in the order of its keys: the
  array indices in ascending order first, then the other keys in the order of their
  creation.  \<open>set_prop\<close> defines a member, \<open>own_props\<close> gives the members that the spread
  \<open>{...v}\<close> copies, and \<open>or_empty\<close> is \<open>v || {}\<close>.
\<close>

definition is_index_key :: "string \<Rightarrow> bool" where
  "is_index_key k =
     (k \<noteq> [] \<and> list_all is_digit k \<and> digits_of (digits_val k) = k \<and> digits_val k < 2 ^ 32 - 1)"

fun insert_index :: "string \<Rightarrow> json \<Rightarrow> (string \<times> json) list \<Rightarrow> (string \<times> json) list" where
  "insert_index k v [] = [(k, v)]"
| "insert_index k v ((k', v') # kvs) =
     (if is_index_key k' \<and> digits_val k' < digits_val k then (k', v') # insert_index k v kvs
      else (k, v) # (k', v') # kvs)"

definition set_prop :: "(string \<times> json) list \<Rightarrow> string \<Rightarrow> json \<Rightarrow> (string \<times> json) list" where
  "set_prop kvs k v =
     (if k \<in> set (map fst kvs) then map (\<lambda>(k', v'). if k' = k then (k', v) else (k', v')) kvs
      else if is_index_key k then insert_index k v kvs
      else kvs @ [(k, v)])"

definition assign_all :: "(string \<times> json) list \<Rightarrow> (string \<times> json) list \<Rightarrow> (string \<times> json) list" where
  "assign_all kvs new = foldl (\<lambda>acc (k, v). set_prop acc k v) kvs new"

definition own_props :: "json option \<Rightarrow> (string \<times> json) list" where
  "own_props v =
     (case v of
        Some (JObj kvs) \<Rightarrow> assign_all [] kvs
      | Some (JArr xs) \<Rightarrow> map (\<lambda>(i, x). (digits_of i, x)) (enumerate 0 xs)
      | Some (JStr s) \<Rightarrow> map (\<lambda>(i, c). (digits_of i, JStr [c])) (enumerate 0 s)
      | _ \<Rightarrow> [])"

definition or_empty :: "json option \<Rightarrow> json option" where
  "or_empty v =
     (if v = None \<or> v = Some JNull \<or> v = Some (JBool False) \<or> v = Some (JNum 0) \<or> v = Some (JStr [])
      then Some (JObj []) else v)"

text \<open>
  \<open>body\<close> is \<open>req.body\<close>, \<open>None\<close> when the request had no JSON body to parse; reading
  \<open>req.body.profile\<close> then throws, and the error handler answers 500.  The message of the
  response is given without its leading check mark.
\<close>

definition post_settings :: "json option \<Rightarrow> state \<Rightarrow> (error + string \<times> json) \<times> state" where
  "post_settings body st =
     (case body of
        None \<Rightarrow> (Inl InternalServerError, st)
      | Some b \<Rightarrow>
          let s = settings st;
              merge_section = (\<lambda>k. JObj (assign_all (own_props (get_prop s k))
                                             (own_props (or_empty (get_prop b k)))));
              merged =
                JObj (assign_all (assign_all (own_props (Some s)) (own_props body))
                        [(''profile'', merge_section ''profile''),
                         (''preferences'', merge_section ''preferences''),
                         (''alerts'', merge_section ''alerts''),
                         (''ai'', merge_section ''ai'')])
          in (Inr (''Settings updated successfully'', merged), st\<lparr>settings := merged\<rparr>))"

section \<open>Requests\<close>

text \<open>
  The routes of the application, each request with the random values its handler draws,
  and the answer of the server to a request at the instant \<open>now\<close>.  A parameter update
  without a body is one with the body \<open>{}\<close>.
\<close>

datatype request =
    GetRoot
  | GetSettings
  | PostSettings "json option"
  | GetOverview
  | GetSensors "nat \<Rightarrow> real \<times> real \<times> real \<times> real"
  | GetSensorHistory string "nat \<Rightarrow> real"
  | GetAlerts
  | PostAck string
  | GetPredictions "nat \<Rightarrow> real" "nat \<Rightarrow> real"
  | GetMap "nat \<Rightarrow> real"
  | GetSimulation
  | PostSimulation real "json option"
  | ExportReport

datatype response =
    RootR string
  | SettingsR json
  | SettingsUpdateR "error + string \<times> json"
  | OverviewR overview
  | SensorsR "sensor_row list"
  | HistoryR "jsnum \<times> (int \<times> string) list"
  | AlertsR "alert list"
  | AckR "error + string \<times> alert"
  | PredictionsR "string \<times> (string list \<times> jsnum list) \<times> (string list \<times> jsnum list)"
  | MapR "zone_row list"
  | SimulationR simulation
  | SimulationUpdateR "string \<times> simulation"
  | ReportR report

fun handle ::
    "(real \<Rightarrow> string) \<Rightarrow> zone_def list \<Rightarrow> int \<Rightarrow> request \<Rightarrow> state \<Rightarrow> response \<times> state" where
  "handle h zs now GetRoot st = map_prod RootR id (get_root st)"
| "handle h zs now GetSettings st = map_prod SettingsR id (get_settings st)"
| "handle h zs now (PostSettings body) st = map_prod SettingsUpdateR id (post_settings body st)"
| "handle h zs now GetOverview st = map_prod OverviewR id (get_overview h zs now st)"
| "handle h zs now (GetSensors u) st = map_prod SensorsR id (get_sensors h now u st)"
| "handle h zs now (GetSensorHistory p u) st = map_prod HistoryR id (get_sensor_history h now u p st)"
| "handle h zs now GetAlerts st = map_prod AlertsR id (get_alerts st)"
| "handle h zs now (PostAck p) st = map_prod AckR id (post_ack p st)"
| "handle h zs now (GetPredictions u v) st = map_prod PredictionsR id (get_predictions h zs u v st)"
| "handle h zs now (GetMap u) st = map_prod MapR id (get_map h zs u st)"
| "handle h zs now GetSimulation st = map_prod SimulationR id (get_simulation st)"
| "handle h zs now (PostSimulation r body) st =
     map_prod SimulationUpdateR id
       (post_simulation h now r (case body of None \<Rightarrow> JObj [] | Some b \<Rightarrow> b) st)"
| "handle h zs now ExportReport st = map_prod ReportR id (export_report h zs now st)"

text \<open>
  What happens to the server: the timer fires (with the three random values of the tick)
  or a request arrives; \<open>run\<close> is a sequence of such events, each with its instant.
\<close>

datatype event = Tick real real real | Request request

fun step :: "(real \<Rightarrow> string) \<Rightarrow> zone_def list \<Rightarrow> int \<times> event \<Rightarrow> state \<Rightarrow> state" where
  "step h zs (now, Tick r1 r2 r3) st = tick h zs now r1 r2 r3 st"
| "step h zs (now, Request q) st = snd (handle h zs now q st)"

definition run :: "(real \<Rightarrow> string) \<Rightarrow> zone_def list \<Rightarrow> (int \<times> event) list \<Rightarrow> state \<Rightarrow> state" where
  "run h zs evs st = foldl (\<lambda>s e. step h zs e s) st evs"

section \<open>Vocabulary of the properties\<close>

text \<open>A value is a number between \<open>lo\<close> and \<open>hi\<close>; \<open>NaN\<close> and the infinities are not.\<close>

definition in_range :: "real \<Rightarrow> real \<Rightarrow> jsnum \<Rightarrow> bool" where
  "in_range lo hi v = (case v of Num x \<Rightarrow> lo \<le> x \<and> x \<le> hi | _ \<Rightarrow> False)"

definition within_clamps :: "simulation \<Rightarrow> bool" where
  "within_clamps sim =
     (in_range 0 300 (rainfallMm sim) \<and> in_range 0 10 (seismicMag sim) \<and>
      in_range 0 100 (blastingLevel sim))"

text \<open>A host rendering for the examples, which only print integers.\<close>

definition plain_host :: "real \<Rightarrow> string" where
  "plain_host x = ''?''"

text \<open>The update \<open>{"seismicMag": 7}\<close>, and the state after \<open>n\<close> such updates.\<close>

definition seismic7 :: json where
  "seismic7 = JObj [(''seismicMag'', JNum 7)]"

definition updates :: "(real \<Rightarrow> string) \<Rightarrow> int \<Rightarrow> real \<Rightarrow> nat \<Rightarrow> state \<Rightarrow> state" where
  "updates h now r n st = ((\<lambda>s. snd (post_simulation h now r seismic7 s)) ^^ n) st"

text \<open>
  The digits \<open>toFixed\<close> prints after the sign, for the integer \<open>n\<close> and \<open>f\<close> decimals.
\<close>

definition fixed_digits :: "nat \<Rightarrow> nat \<Rightarrow> string" where
  "fixed_digits f n =
     (let m = digits_of n;
          m' = (if length m \<le> f then replicate (f + 1 - length m) (CHR ''0'') @ m else m);
          k = length m'
      in if f = 0 then m' else take (k - f) m' @ ''.'' @ drop (k - f) m')"

text \<open>The number that \<open>toFixed(f)\<close> prints for a finite \<open>x\<close>.\<close>

definition round_to :: "nat \<Rightarrow> real \<Rightarrow> real" where
  "round_to f x = (if x < 0 then - 1 else 1) * real (nat \<lfloor>\<bar>x\<bar> * 10 ^ f + 1 / 2\<rfloor>) / 10 ^ f"

text \<open>
  The risk score as the specification words it: the average base risk of the zones, the
  three influences capped at 1, the weighted sum, and the number \<open>Number(computeRiskScore())\<close>
  that the callers read from the printed score.
\<close>

definition value_of :: "jsnum \<Rightarrow> real" where
  "value_of v = (case v of Num x \<Rightarrow> x | _ \<Rightarrow> 0)"

definition avgBaseRisk :: "zone_def list \<Rightarrow> real" where
  "avgBaseRisk zs = sum_list (map baseRisk zs) / real (length zs)"

definition composite :: "zone_def list \<Rightarrow> simulation \<Rightarrow> real" where
  "composite zs sim =
     avgBaseRisk zs * 0.6 + min 1 (value_of (rainfallMm sim) / 200) * 0.2
       + min 1 (value_of (seismicMag sim) / 8) * 0.15
       + min 1 (value_of (blastingLevel sim) / 100) * 0.05"

definition risk_number :: "(real \<Rightarrow> string) \<Rightarrow> zone_def list \<Rightarrow> simulation \<Rightarrow> jsnum" where
  "risk_number h zs sim = StringToNumber (computeRiskScore h zs sim)"

text \<open>Every base risk of the list is in [0,1], as the data model says, and there is a zone.\<close>

definition valid_zones :: "zone_def list \<Rightarrow> bool" where
  "valid_zones zs = (zs \<noteq> [] \<and> list_all (\<lambda>z. 0 \<le> baseRisk z \<and> baseRisk z \<le> 1) zs)"

text \<open>
  An alert that blocks rule 1: unacknowledged, with \<open>probability exceeded\<close> in its message.
  Then the alert rule 1 creates, and the list (empty or one alert) that rule 2 creates.
\<close>

definition pending :: "alert \<Rightarrow> bool" where
  "pending a = (includes_str (msg a) ''probability exceeded'' \<and> \<not> acknowledged a)"

definition rockfall_alert :: "(real \<Rightarrow> string) \<Rightarrow> zone_def list \<Rightarrow> int \<Rightarrow> simulation \<Rightarrow> alert" where
  "rockfall_alert h zs now sim =
     \<lparr>alert_id = now, zone = ''Sector A - West Wall'',
      msg = ''Rockfall probability exceeded ''
            @ toFixed h 0 (js_mul (risk_number h zs sim) (Num 10)) @ ''% threshold'',
      severity = High, time = now, acknowledged = False\<rparr>"

definition sensor_alerts :: "int \<Rightarrow> real \<Rightarrow> simulation \<Rightarrow> alert list" where
  "sensor_alerts now r sim =
     (if js_lt (Num r) (js_add (Num 0.02) (js_div (blastingLevel sim) (Num 5000)))
      then [\<lparr>alert_id = now + 1, zone = ''Sensor Network'',
             msg = ''Sensor malfunction: irregular readings detected'',
             severity = Medium, time = now, acknowledged = False\<rparr>]
      else [])"

text \<open>A zone list whose average base risk is 1, and a state with every influence at 1.\<close>

definition risky_zones :: "zone_def list" where
  "risky_zones = [\<lparr>zone_id = 1, name = ''Sector A - West Wall'', lat = 20.594, lng = 78.962, baseRisk = 1\<rparr>]"

definition storm :: simulation where
  "storm = \<lparr>rainfallMm = Num 200, seismicMag = Num 8, blastingLevel = Num 100\<rparr>"

text \<open>
  Every field of the simulation is within its clamp or \<open>NaN\<close>: what the initial state, the
  ticks and the parameter updates maintain.
\<close>

definition clamped_or_NaN :: "simulation \<Rightarrow> bool" where
  "clamped_or_NaN sim =
     ((rainfallMm sim = NaN \<or> in_range 0 300 (rainfallMm sim)) \<and>
      (seismicMag sim = NaN \<or> in_range 0 10 (seismicMag sim)) \<and>
      (blastingLevel sim = NaN \<or> in_range 0 100 (blastingLevel sim)))"

text \<open>The first seed alert, created at \<open>t0\<close>.\<close>

definition seed_rockfall :: "int \<Rightarrow> alert" where
  "seed_rockfall t0 =
     \<lparr>alert_id = 1, zone = ''Sector A - West Wall'',
      msg = ''Rockfall probability exceeded 85% threshold'', severity = High,
      time = t0, acknowledged = False\<rparr>"

text \<open>
  The specification's formulas, evaluated in binary64 in the order they are written: the
  average base risk, an influence (a field divided by its ceiling and capped at 1), the
  composite, ten times the composite, and the number \<open>Number(computeRiskScore())\<close>.
\<close>

definition avgBaseRisk64 :: "zone_def list \<Rightarrow> jsnum" where
  "avgBaseRisk64 zs =
     div64 (foldl (\<lambda>s z. add64 s (lit (baseRisk z))) (Num 0) zs) (Num (real (length zs)))"

definition influence64 :: "jsnum \<Rightarrow> real \<Rightarrow> jsnum" where
  "influence64 v cap = Math_min (Num 1) (div64 v (Num cap))"

definition composite64 :: "zone_def list \<Rightarrow> simulation \<Rightarrow> jsnum" where
  "composite64 zs sim =
     add64 (add64 (add64 (mul64 (avgBaseRisk64 zs) (lit 0.6))
                         (mul64 (influence64 (rainfallMm sim) 200) (lit 0.2)))
                  (mul64 (influence64 (seismicMag sim) 8) (lit 0.15)))
           (mul64 (influence64 (blastingLevel sim) 100) (lit 0.05))"

definition risk64 :: "zone_def list \<Rightarrow> simulation \<Rightarrow> real" where
  "risk64 zs sim = value_of (mul64 (composite64 zs sim) (Num 10))"

definition risk_number64 :: "(real \<Rightarrow> string) \<Rightarrow> zone_def list \<Rightarrow> simulation \<Rightarrow> jsnum" where
  "risk_number64 h zs sim = StringToNumber64 (computeRiskScore64 h zs sim)"


text \<open>
  The zone score and the severity tiers as the specification words them, in binary64; the
  noise of a draw \<open>u\<close> is \<open>rnd() * 0.05\<close>.
\<close>

definition noise64 :: "real \<Rightarrow> jsnum" where
  "noise64 u = mul64 (rnd64 u 0 1) (lit 0.05)"

definition zone_score64 :: "zone_def \<Rightarrow> simulation \<Rightarrow> jsnum \<Rightarrow> jsnum" where
  "zone_score64 z sim noise =
     Math_min (Num 1)
       (add64 (add64 (add64 (mul64 (lit (baseRisk z)) (lit 0.6))
                            (mul64 (influence64 (rainfallMm sim) 200) (lit 0.25)))
                     (mul64 (influence64 (seismicMag sim) 8) (lit 0.15)))
              noise)"

definition severity_of64 :: "jsnum \<Rightarrow> severity" where
  "severity_of64 s = (if js_gt s (lit 0.7) then High else if js_gt s (lit 0.4) then Medium else Low)"

text \<open>Every draw has the same value; and a state in which it rains 200 mm.\<close>

definition const_draw :: "real \<Rightarrow> nat \<Rightarrow> real" where
  "const_draw x i = x"

definition rainy_state :: state where
  "rainy_state =
     (initial_state 0)\<lparr>simulation :=
        \<lparr>rainfallMm = Num 200, seismicMag = Num 0, blastingLevel = Num 0\<rparr>\<rparr>"

text \<open>
  The read-only requests, the events that may create alerts, and two alert lists that
  differ at most in acknowledgements.
\<close>

fun is_query :: "request \<Rightarrow> bool" where
  "is_query (PostSettings body) = False"
| "is_query (PostAck p) = False"
| "is_query (PostSimulation r body) = False"
| "is_query q = True"

fun query_event :: "int \<times> event \<Rightarrow> bool" where
  "query_event (now, Request q) = is_query q"
| "query_event (now, Tick r1 r2 r3) = False"

fun may_create_alerts :: "int \<times> event \<Rightarrow> bool" where
  "may_create_alerts (now, Tick r1 r2 r3) = True"
| "may_create_alerts (now, Request (PostSimulation r body)) = True"
| "may_create_alerts (now, Request q) = False"

definition same_alerts :: "alert list \<Rightarrow> alert list \<Rightarrow> bool" where
  "same_alerts xs ys = list_all2 (\<lambda>a b. b = a \<or> b = a\<lparr>acknowledged := True\<rparr>) xs ys"

text \<open>A state with 90 mm of rain and a seismic magnitude of 6.\<close>

definition damp_state :: state where
  "damp_state =
     (initial_state 0)\<lparr>simulation :=
        \<lparr>rainfallMm = Num 90, seismicMag = Num 6, blastingLevel = Num 0\<rparr>\<rparr>"

section \<open>Numbers: basic facts\<close>

lemma clamp_Num [simp]:
  "Math_max (Num lo) (Math_min (Num hi) (Num x)) = Num (max lo (min hi x))"
  by (auto simp: Math_max_def Math_min_def max_def min_def)

lemma clamp_NaN [simp]: "Math_max (Num lo) (Math_min (Num hi) NaN) = NaN"
  by (simp add: Math_max_def Math_min_def)

lemma clamp_PInf [simp]: "Math_max (Num lo) (Math_min (Num hi) PInf) = Num (max lo hi)"
  by (simp add: Math_max_def Math_min_def max_def)

lemma clamp_NInf [simp]: "Math_max (Num lo) (Math_min (Num hi) NInf) = Num lo"
  by (simp add: Math_max_def Math_min_def)

lemma clamp_in_range:
  assumes "lo \<le> hi" and "v \<noteq> NaN"
  shows "in_range lo hi (Math_max (Num lo) (Math_min (Num hi) v))"
  using assms by (cases v) (auto simp: in_range_def)

lemma digits_of_numeral [simp]:
  "digits_of (numeral k) =
     (if (numeral k :: nat) < 10 then [digit_char (numeral k)]
      else digits_of (numeral k div 10) @ [digit_char (numeral k mod 10)])"
  by (rule digits_of.simps)

lemma digits_of_0 [simp]: "digits_of 0 = ''0''"
  by (simp add: digits_of.simps digit_char_def)

lemma digits_of_1 [simp]: "digits_of (Suc 0) = ''1''"
  by (simp add: digits_of.simps digit_char_def)

lemmas StringToNumber_eval =
  StringToNumber_def trim_def is_ws_def NonDecimalIntegerLiteral_def StrDecimalLiteral_def
  StrUnsignedDecimalLiteral_def ExponentPart_def is_digit_def digits_val_def digit_val_def
  scale10_def radix_digit_def

lemma StringToNumber_abc: "StringToNumber ''abc'' = NaN"
  by (simp add: StringToNumber_eval)

section \<open>The simulation stays within its clamps, except for NaN\<close>

lemma tick_within_clamps:
  "within_clamps (simulation st) \<Longrightarrow> within_clamps (simulation (tick h zs now r1 r2 r3 st))"
  by (cases "rainfallMm (simulation st)"; cases "seismicMag (simulation st)")
     (auto simp: tick_def maybeCreateAlert_def Let_def js_gt_def within_clamps_def in_range_def
        js_sub_def)

lemma post_simulation_within_clamps:
  assumes "within_clamps (simulation st)"
    and "\<And>k v. get_prop body k = Some v \<Longrightarrow> ToNumber v \<noteq> NaN"
  shows "within_clamps (simulation (snd (post_simulation h now r body st)))"
  using assms(1) assms(2) [of "''rainfallMm''"] assms(2) [of "''seismicMag''"]
    assms(2) [of "''blastingLevel''"]
  by (auto simp: post_simulation_def Let_def within_clamps_def clamp_in_range
      split: option.splits)

lemma tick_keeps_NaN:
  "rainfallMm (simulation st) = NaN \<Longrightarrow>
   rainfallMm (simulation (tick h zs now r1 r2 r3 st)) = NaN"
  by (simp add: tick_def maybeCreateAlert_def Let_def js_gt_def)

text \<open>
  C1.  The claim: after every sequence of parameter updates and ticks the three fields are
  within [0,300], [0,10] and [0,100], and an update whose field is a non-numeric string
  never stores \<open>NaN\<close>.  The code at the update \<open>{"rainfallMm": "abc"}\<close> in the initial
  state: \<open>Number("abc")\<close> is \<open>NaN\<close>, both \<open>Math.min\<close> and \<open>Math.max\<close> return it, and
  \<open>NaN\<close> is stored; the state is no longer within its clamps, and every later tick leaves
  the \<open>NaN\<close> where it is.
\<close>

theorem post_simulation_stores_NaN:
  fixes h now r t0 zs now' r1 r2 r3
  defines "st \<equiv> snd (post_simulation h now r (JObj [(''rainfallMm'', JStr ''abc'')]) (initial_state t0))"
  shows "simulation st = \<lparr>rainfallMm = NaN, seismicMag = Num 0, blastingLevel = Num 0\<rparr>
       \<and> within_clamps (simulation (initial_state t0))
       \<and> \<not> within_clamps (simulation st)
       \<and> rainfallMm (simulation (tick h zs now' r1 r2 r3 st)) = NaN"
proof -
  have 1: "simulation st = \<lparr>rainfallMm = NaN, seismicMag = Num 0, blastingLevel = Num 0\<rparr>"
    by (simp add: st_def post_simulation_def get_prop_def initial_state_def StringToNumber_abc
        Let_def)
  have 2: "within_clamps (simulation (initial_state t0))"
    by (simp add: initial_state_def within_clamps_def in_range_def)
  have 3: "\<not> within_clamps (simulation st)"
    by (simp add: 1 within_clamps_def in_range_def)
  have 4: "rainfallMm (simulation (tick h zs now' r1 r2 r3 st)) = NaN"
    by (rule tick_keeps_NaN) (simp add: 1)
  from 1 2 3 4 show ?thesis by simp
qed

section \<open>The cap on the alert list\<close>

lemma maybeCreateAlert_length: "length (alerts (maybeCreateAlert h zs now r st)) \<le> 50"
  by (simp add: maybeCreateAlert_def Let_def)

lemma tick_length: "length (alerts (tick h zs now r1 r2 r3 st)) \<le> 50"
  by (simp add: tick_def Let_def maybeCreateAlert_length)

lemma maybeCreateAlert_length_full:
  "50 \<le> length (alerts st) \<Longrightarrow> length (alerts (maybeCreateAlert h zs now r st)) = 50"
  by (simp add: maybeCreateAlert_def Let_def)

lemma tick_length_full:
  "50 \<le> length (alerts st) \<Longrightarrow> length (alerts (tick h zs now r1 r2 r3 st)) = 50"
  by (simp add: tick_def Let_def maybeCreateAlert_length_full)

lemma post_seismic7_length:
  "length (alerts (snd (post_simulation h now r seismic7 st))) = Suc (length (alerts st))"
  by (simp add: post_simulation_def Let_def seismic7_def get_prop_def js_gt_def)

lemma updates_length: "length (alerts (updates h now r n st)) = n + length (alerts st)"
  by (induction n) (simp_all add: updates_def post_seismic7_length)

text \<open>
  C2.  The claim: after every operation that inserts alerts, a parameter update included,
  the list has at most 50 entries.  The code: \<open>maybeCreateAlert\<close> cuts the list to 50, the
  handler of \<open>POST /api/simulation\<close> only puts its alert in front.  After 49 updates
  \<open>{"seismicMag": 7}\<close> from the initial state the list has 51 entries; one more update on a
  list that a tick has cut to 50 gives 51 again.
\<close>

theorem post_simulation_exceeds_cap:
  "length (alerts (updates h now r 49 (initial_state t0))) = 51
   \<and> length (alerts (tick h zs now' r1 r2 r3 (updates h now r 49 (initial_state t0)))) = 50
   \<and> length (alerts (snd (post_simulation h now r seismic7
         (tick h zs now' r1 r2 r3 (updates h now r 49 (initial_state t0)))))) = 51"
proof -
  have "length (alerts (updates h now r 49 (initial_state t0))) = 51"
    by (simp add: updates_length initial_state_def)
  then show ?thesis
    by (simp add: post_seismic7_length tick_length_full)
qed

section \<open>Parameter updates with numeric fields\<close>

text \<open>
  C5.  For a payload whose fields \<open>rainfallMm\<close>, \<open>seismicMag\<close> and \<open>blastingLevel\<close> are each
  absent or a number (\<open>rain\<close>, \<open>seis\<close> and \<open>blast\<close> say which), the update stores the
  clamped value of each present field and leaves an absent one as it was; then it puts
  exactly one High alert of zone \<open>Simulated\<close>, whose message shows the new rainfall and
  seismic values, in front of the list if the new rainfall is above 150 or the new seismic
  magnitude above 6, and leaves the list alone otherwise.
\<close>

theorem post_simulation_numeric:
  fixes rain seis blast :: "real option" and st :: state
  assumes "get_prop body ''rainfallMm'' = map_option JNum rain"
    and "get_prop body ''seismicMag'' = map_option JNum seis"
    and "get_prop body ''blastingLevel'' = map_option JNum blast"
  defines "sim \<equiv> simulation st"
  defines "sim' \<equiv>
    \<lparr>rainfallMm = (case rain of None \<Rightarrow> rainfallMm sim | Some x \<Rightarrow> Num (max 0 (min 300 x))),
     seismicMag = (case seis of None \<Rightarrow> seismicMag sim | Some x \<Rightarrow> Num (max 0 (min 10 x))),
     blastingLevel = (case blast of None \<Rightarrow> blastingLevel sim | Some x \<Rightarrow> Num (max 0 (min 100 x)))\<rparr>"
  shows "post_simulation h now r body st =
      ((''Simulation updated'', sim'),
       st\<lparr>simulation := sim',
          alerts :=
            (if js_gt (rainfallMm sim') (Num 150) \<or> js_gt (seismicMag sim') (Num 6)
             then [\<lparr>alert_id = now + \<lfloor>r * 1000\<rfloor>, zone = ''Simulated'',
                    msg = ''Simulation triggered HIGH-RISK conditions (rain=''
                          @ numToString h (rainfallMm sim') @ '', seismic=''
                          @ numToString h (seismicMag sim') @ '')'',
                    severity = High, time = now, acknowledged = False\<rparr>]
             else []) @ alerts st\<rparr>)"
  using assms(1-3) unfolding sim_def sim'_def
  by (cases rain; cases seis; cases blast) (simp_all add: post_simulation_def Let_def)

theorem post_simulation_numeric_witness:
  "post_simulation plain_host 1000 0 (JObj [(''rainfallMm'', JNum 500), (''seismicMag'', JNum (- 10))])
      (initial_state 0)
   = ((''Simulation updated'', \<lparr>rainfallMm = Num 300, seismicMag = Num 0, blastingLevel = Num 0\<rparr>),
      \<lparr>simulation = \<lparr>rainfallMm = Num 300, seismicMag = Num 0, blastingLevel = Num 0\<rparr>,
       alerts = \<lparr>alert_id = 1000, zone = ''Simulated'',
                  msg = ''Simulation triggered HIGH-RISK conditions (rain=300, seismic=0)'',
                  severity = High, time = 1000, acknowledged = False\<rparr> # alerts (initial_state 0),
       settings = initial_settings\<rparr>)"
  using post_simulation_numeric
      [of "JObj [(''rainfallMm'', JNum 500), (''seismicMag'', JNum (- 10))]" "Some 500"
          "Some (- 10)" None plain_host 1000 0 "initial_state 0"]
  by (simp add: get_prop_def initial_state_def js_gt_def numToString_def digit_char_def)

section \<open>Acknowledging an alert\<close>

lemma find_None_iff_not_ex: "find P as = None \<longleftrightarrow> \<not> list_ex P as"
  by (induction as) auto

lemma acknowledge_split:
  assumes "\<not> list_ex (\<lambda>b. js_eq (Num (of_int (alert_id b))) i) pre"
    and "js_eq (Num (of_int (alert_id a))) i"
  shows "acknowledge i (pre @ a # post) = pre @ a\<lparr>acknowledged := True\<rparr> # post"
    and "find (\<lambda>b. js_eq (Num (of_int (alert_id b))) i) (pre @ a # post) = Some a"
  using assms by (induction pre) auto

lemma acknowledge_idem: "acknowledge i (acknowledge i as) = acknowledge i as"
  by (induction as) auto

lemma find_acknowledge_Some:
  "find (\<lambda>b. js_eq (Num (of_int (alert_id b))) i) as = Some a \<Longrightarrow>
   find (\<lambda>b. js_eq (Num (of_int (alert_id b))) i) (acknowledge i as)
     = Some (a\<lparr>acknowledged := True\<rparr>)"
  by (induction as) (auto split: if_splits)

text \<open>
  C7.  Let \<open>i\<close> be the number the path parameter converts to, and call an alert a hit if
  its id is \<open>i\<close>.  The request fails with NotFound exactly when the list has no hit, and then
  the state is unchanged.  Otherwise it succeeds: the first hit, and only it, has its flag
  set to true, and the response carries that alert.  A second request with the same
  parameter succeeds again with the same response and changes nothing.
\<close>

theorem post_ack_correct:
  fixes p :: string and st :: state and pre post :: "alert list" and a :: alert
  defines "i \<equiv> StringToNumber p"
  defines "hit \<equiv> (\<lambda>a. js_eq (Num (of_int (alert_id a))) i)"
  shows
    "(fst (post_ack p st) = Inl (NotFound ''Alert not found'') \<longleftrightarrow> \<not> list_ex hit (alerts st)) \<and>
     (\<not> list_ex hit (alerts st) \<longrightarrow> snd (post_ack p st) = st) \<and>
     (alerts st = pre @ a # post \<and> \<not> list_ex hit pre \<and> hit a \<longrightarrow>
        post_ack p st =
          (Inr (''Acknowledged'', a\<lparr>acknowledged := True\<rparr>),
           st\<lparr>alerts := pre @ a\<lparr>acknowledged := True\<rparr> # post\<rparr>)) \<and>
     (list_ex hit (alerts st) \<longrightarrow>
        (\<exists>a. fst (post_ack p st) = Inr (''Acknowledged'', a) \<and> acknowledged a \<and>
             post_ack p (snd (post_ack p st)) = (Inr (''Acknowledged'', a), snd (post_ack p st))))"
proof (intro conjI impI)
  show "fst (post_ack p st) = Inl (NotFound ''Alert not found'') \<longleftrightarrow> \<not> list_ex hit (alerts st)"
    by (simp add: post_ack_def Let_def i_def hit_def find_None_iff_not_ex [symmetric]
        split: option.splits)
next
  assume "\<not> list_ex hit (alerts st)"
  then show "snd (post_ack p st) = st"
    by (simp add: post_ack_def Let_def i_def hit_def find_None_iff_not_ex [symmetric])
next
  assume "alerts st = pre @ a # post \<and> \<not> list_ex hit pre \<and> hit a"
  then show "post_ack p st =
          (Inr (''Acknowledged'', a\<lparr>acknowledged := True\<rparr>),
           st\<lparr>alerts := pre @ a\<lparr>acknowledged := True\<rparr> # post\<rparr>)"
    using acknowledge_split [of i pre a post]
    by (simp add: post_ack_def Let_def i_def hit_def)
next
  assume "list_ex hit (alerts st)"
  then obtain a where a: "find hit (alerts st) = Some a"
    using find_None_iff_not_ex [of hit "alerts st"] by (cases "find hit (alerts st)") auto
  have 1: "fst (post_ack p st) = Inr (''Acknowledged'', a\<lparr>acknowledged := True\<rparr>)"
    and 2: "snd (post_ack p st) = st\<lparr>alerts := acknowledge i (alerts st)\<rparr>"
    using a by (simp_all add: post_ack_def Let_def i_def hit_def)
  have 3: "find hit (acknowledge i (alerts st)) = Some (a\<lparr>acknowledged := True\<rparr>)"
    using a find_acknowledge_Some [of i "alerts st" a] by (simp add: hit_def)
  have "post_ack p (snd (post_ack p st))
          = (Inr (''Acknowledged'', a\<lparr>acknowledged := True\<rparr>), snd (post_ack p st))"
    unfolding 2 using 3
    by (simp add: post_ack_def Let_def i_def [symmetric] hit_def [symmetric] acknowledge_idem)
  with 1 show "\<exists>a. fst (post_ack p st) = Inr (''Acknowledged'', a) \<and> acknowledged a \<and>
             post_ack p (snd (post_ack p st)) = (Inr (''Acknowledged'', a), snd (post_ack p st))"
    by (intro exI [of _ "a\<lparr>acknowledged := True\<rparr>"]) simp
qed

lemma StringToNumber_2: "StringToNumber ''2'' = Num 2"
  by (simp add: StringToNumber_eval)

lemma StringToNumber_7: "StringToNumber ''7'' = Num 7"
  by (simp add: StringToNumber_eval)

theorem post_ack_correct_witness:
  "post_ack ''2'' (initial_state 0)
     = (Inr (''Acknowledged'',
             \<lparr>alert_id = 2, zone = ''Sensor Network'',
              msg = ''Piezometer S002 showing irregular readings'', severity = Medium,
              time = - 3600000, acknowledged = True\<rparr>),
        (initial_state 0)\<lparr>alerts :=
           [\<lparr>alert_id = 1, zone = ''Sector A - West Wall'',
             msg = ''Rockfall probability exceeded 85% threshold'', severity = High,
             time = 0, acknowledged = False\<rparr>,
            \<lparr>alert_id = 2, zone = ''Sensor Network'',
             msg = ''Piezometer S002 showing irregular readings'', severity = Medium,
             time = - 3600000, acknowledged = True\<rparr>]\<rparr>)
   \<and> post_ack ''7'' (initial_state 0) = (Inl (NotFound ''Alert not found''), initial_state 0)"
proof -
  have "post_ack ''7'' (initial_state 0) = (Inl (NotFound ''Alert not found''), initial_state 0)"
    using post_ack_correct [of "''7''" "initial_state 0"]
    by (simp add: StringToNumber_7 initial_state_def prod_eq_iff)
  moreover have "post_ack ''2'' (initial_state 0)
     = (Inr (''Acknowledged'',
             \<lparr>alert_id = 2, zone = ''Sensor Network'',
              msg = ''Piezometer S002 showing irregular readings'', severity = Medium,
              time = - 3600000, acknowledged = True\<rparr>),
        (initial_state 0)\<lparr>alerts :=
           [\<lparr>alert_id = 1, zone = ''Sector A - West Wall'',
             msg = ''Rockfall probability exceeded 85% threshold'', severity = High,
             time = 0, acknowledged = False\<rparr>,
            \<lparr>alert_id = 2, zone = ''Sensor Network'',
             msg = ''Piezometer S002 showing irregular readings'', severity = Medium,
             time = - 3600000, acknowledged = True\<rparr>]\<rparr>)"
    using post_ack_correct [where p = "''2''" and st = "initial_state 0"
        and pre = "[hd (alerts (initial_state 0))]" and a = "hd (tl (alerts (initial_state 0)))"
        and post = "[]"]
    by (simp add: StringToNumber_2 initial_state_def)
  ultimately show ?thesis by simp
qed

section \<open>Printing a number and reading it back\<close>

lemma below_ten: "k < 10 \<Longrightarrow> k \<in> {0, 1, 2, 3, 4, 5, 6, 7, 8, 9 :: nat}"
  by simp arith

lemma of_char_digit_char: "of_char (digit_char d) = (48 + d mod 10 :: nat)"
proof -
  have "d mod 10 \<in> {0, 1, 2, 3, 4, 5, 6, 7, 8, 9}" by (rule below_ten) simp
  then show ?thesis unfolding digit_char_def by auto
qed

lemma is_digit_digit_char [simp]: "is_digit (digit_char d)"
  by (simp add: is_digit_def of_char_digit_char)

lemma digit_val_digit_char [simp]: "digit_val (digit_char d) = d mod 10"
  by (simp add: digit_val_def of_char_digit_char)

lemma digits_of_nonempty [simp]: "digits_of n \<noteq> []"
  by (subst digits_of.simps) simp

lemma digits_of_all_digits [simp]: "list_all is_digit (digits_of n)"
  by (induction n rule: digits_of.induct) (subst digits_of.simps, simp)

lemma digits_val_Nil [simp]: "digits_val [] = 0"
  by (simp add: digits_val_def)

lemma digits_val_snoc [simp]: "digits_val (ds @ [c]) = 10 * digits_val ds + digit_val c"
  by (simp add: digits_val_def)

lemma digits_val_append:
  "digits_val (xs @ ys) = digits_val xs * 10 ^ length ys + digits_val ys"
proof (induction ys rule: rev_induct)
  case Nil
  show ?case by simp
next
  case (snoc y ys)
  have "digits_val (xs @ ys @ [y]) = 10 * digits_val (xs @ ys) + digit_val y"
    using digits_val_snoc [of "xs @ ys" y] by simp
  then show ?case by (simp add: snoc algebra_simps)
qed

lemma digits_val_digits_of [simp]: "digits_val (digits_of n) = n"
proof (induction n rule: digits_of.induct)
  case (1 n)
  show ?case
  proof (cases "n < 10")
    case True
    then show ?thesis
      using digits_val_snoc [of "[]" "digit_char n"] by (subst digits_of.simps) simp
  next
    case False
    with 1 show ?thesis by (subst digits_of.simps) simp
  qed
qed

lemma digits_val_zeros [simp]: "digits_val (replicate k (CHR ''0'') @ ds) = digits_val ds"
proof -
  have "digits_val (replicate k (CHR ''0'')) = 0"
    by (induction k) (simp_all add: digits_val_def digit_val_def)
  then show ?thesis by (simp add: digits_val_append)
qed

lemma is_digit_not_ws: "is_digit c \<Longrightarrow> \<not> is_ws c"
  by (auto simp: is_digit_def is_ws_def)

lemma trim_plain:
  assumes "s \<noteq> []" and "\<not> is_ws (hd s)" and "\<not> is_ws (last s)"
  shows "trim s = s"
proof -
  have 1: "dropWhile is_ws s = s"
    using assms(1,2) by (cases s) simp_all
  have "dropWhile is_ws (rev s) = rev s"
    using assms(1,3) by (cases "rev s") (simp_all add: last_rev [symmetric] hd_rev)
  with 1 show ?thesis by (simp add: trim_def)
qed

lemma NonDecimal_digits_point:
  "list_all (\<lambda>c. is_digit c \<or> c = CHR ''.'') s \<Longrightarrow> NonDecimalIntegerLiteral s = None"
proof (cases s)
  case Nil
  then show ?thesis by (simp add: NonDecimalIntegerLiteral_def)
next
  case (Cons z t)
  assume a: "list_all (\<lambda>c. is_digit c \<or> c = CHR ''.'') s"
  show ?thesis
  proof (cases t)
    case Nil
    with Cons show ?thesis by (simp add: NonDecimalIntegerLiteral_def)
  next
    case (Cons p u)
    with a \<open>s = z # t\<close> have "is_digit p \<or> p = CHR ''.''" by simp
    then have "p \<notin> set ''xXoObB''" by (auto simp: is_digit_def)
    with Cons \<open>s = z # t\<close> show ?thesis
      by (cases u) (simp_all add: NonDecimalIntegerLiteral_def)
  qed
qed

lemma NonDecimal_minus [simp]: "NonDecimalIntegerLiteral (CHR ''-'' # s) = None"
  by (simp add: NonDecimalIntegerLiteral_def split: list.splits)

lemma takeWhile_digits_point:
  "list_all is_digit a \<Longrightarrow> takeWhile is_digit (a @ CHR ''.'' # b) = a"
  by (induction a) (simp_all add: is_digit_def)

lemma dropWhile_digits_point:
  "list_all is_digit a \<Longrightarrow> dropWhile is_digit (a @ CHR ''.'' # b) = CHR ''.'' # b"
  by (induction a) (simp_all add: is_digit_def)

lemma takeWhile_all: "list_all P xs \<Longrightarrow> takeWhile P xs = xs"
  by (induction xs) simp_all

lemma dropWhile_all: "list_all P xs \<Longrightarrow> dropWhile P xs = []"
  by (induction xs) simp_all

lemma not_Infinity: "s \<noteq> [] \<Longrightarrow> is_digit (hd s) \<Longrightarrow> s \<noteq> ''Infinity''"
  by (auto simp: is_digit_def)

lemma unsigned_digits:
  assumes "ds \<noteq> []" and "list_all is_digit ds"
  shows "StrUnsignedDecimalLiteral ds = Num (real (digits_val ds))"
proof -
  have "is_digit (hd ds)" using assms by (cases ds) simp_all
  then have "ds \<noteq> ''Infinity''" using assms(1) by (rule not_Infinity [rotated])
  then show ?thesis
    using assms
    by (simp add: StrUnsignedDecimalLiteral_def takeWhile_all dropWhile_all ExponentPart_def
        scale10_def)
qed

lemma unsigned_digits_point:
  assumes "a \<noteq> []" and "list_all is_digit a" and "list_all is_digit b"
  shows "StrUnsignedDecimalLiteral (a @ CHR ''.'' # b)
           = Num (real (digits_val a) + real (digits_val b) / 10 ^ length b)"
proof -
  have "is_digit (hd (a @ CHR ''.'' # b))" using assms by (cases a) simp_all
  then have "a @ CHR ''.'' # b \<noteq> ''Infinity''" by (intro not_Infinity) simp_all
  then show ?thesis
    using assms
    by (simp add: StrUnsignedDecimalLiteral_def takeWhile_digits_point dropWhile_digits_point
        takeWhile_all dropWhile_all ExponentPart_def scale10_def Let_def)
qed

text \<open>A string of digits with at most one point inside, as \<open>toFixed\<close> prints it.\<close>

lemma StringToNumber_unsigned:
  assumes "s \<noteq> []" and "is_digit (hd s)" and "is_digit (last s)"
    and "list_all (\<lambda>c. is_digit c \<or> c = CHR ''.'') s"
  shows "StringToNumber s = StrUnsignedDecimalLiteral s"
    and "StringToNumber (CHR ''-'' # s) = js_neg (StrUnsignedDecimalLiteral s)"
proof -
  have t: "trim s = s"
    using assms(1-3) by (intro trim_plain) (simp_all add: is_digit_not_ws)
  have "hd s \<noteq> CHR ''+''" "hd s \<noteq> CHR ''-''"
    using assms(2) by (auto simp: is_digit_def)
  then have d: "StrDecimalLiteral s = StrUnsignedDecimalLiteral s"
    using assms(1) by (cases s) (simp_all add: StrDecimalLiteral_def)
  show "StringToNumber s = StrUnsignedDecimalLiteral s"
    using assms(1) by (simp add: StringToNumber_def t NonDecimal_digits_point [OF assms(4)] d)
  have "\<not> is_ws (CHR ''-'')" by (simp add: is_ws_def)
  then have "trim (CHR ''-'' # s) = CHR ''-'' # s"
    using assms(1,3) by (intro trim_plain) (simp_all add: is_digit_not_ws)
  then show "StringToNumber (CHR ''-'' # s) = js_neg (StrUnsignedDecimalLiteral s)"
    by (simp add: StringToNumber_def StrDecimalLiteral_def)
qed

lemma toFixed_fixed_digits:
  "\<bar>x\<bar> < 10 ^ 21 \<Longrightarrow>
   toFixed h f (Num x)
     = (if x < 0 then ''-'' else '''') @ fixed_digits f (nat \<lfloor>\<bar>x\<bar> * 10 ^ f + 1 / 2\<rfloor>)"
  by (simp add: toFixed_def fixed_digits_def Let_def)

lemma fixed_digits_0: "fixed_digits 0 n = digits_of n"
  by (simp add: fixed_digits_def Let_def)

lemma fixed_digits_split:
  assumes "0 < f"
  obtains a b where "fixed_digits f n = a @ CHR ''.'' # b" and "a \<noteq> []" and "length b = f"
    and "list_all is_digit a" and "list_all is_digit b" and "digits_val (a @ b) = n"
proof -
  define m where "m = digits_of n"
  define m' where "m' = (if length m \<le> f then replicate (f + 1 - length m) (CHR ''0'') @ m else m)"
  define a where "a = take (length m' - f) m'"
  define b where "b = drop (length m' - f) m'"
  have len: "f < length m'" by (auto simp: m'_def)
  have "is_digit (CHR ''0'')" by (simp add: is_digit_def)
  then have dig: "list_all is_digit m'"
    using digits_of_all_digits [of n] by (auto simp: m'_def m_def list_all_iff)
  have val: "digits_val m' = n" by (simp add: m'_def m_def)
  have ab: "a @ b = m'" by (simp add: a_def b_def)
  show thesis
  proof
    show "fixed_digits f n = a @ CHR ''.'' # b"
      using assms by (simp add: fixed_digits_def Let_def m_def [symmetric] m'_def [symmetric] a_def b_def)
    show "a \<noteq> []" using len by (auto simp: a_def)
    show "length b = f" using len by (simp add: b_def)
    show "list_all is_digit a" using dig by (auto simp: a_def list_all_iff dest: in_set_takeD)
    show "list_all is_digit b" using dig by (auto simp: b_def list_all_iff dest: in_set_dropD)
    show "digits_val (a @ b) = n" by (simp add: ab val)
  qed
qed

lemma fixed_digits_shape:
  "fixed_digits f n \<noteq> []" (is ?A)
  "is_digit (hd (fixed_digits f n))" (is ?B)
  "is_digit (last (fixed_digits f n))" (is ?C)
  "list_all (\<lambda>c. is_digit c \<or> c = CHR ''.'') (fixed_digits f n)" (is ?D)
  "StrUnsignedDecimalLiteral (fixed_digits f n) = Num (real n / 10 ^ f)" (is ?E)
proof -
  have "?A \<and> ?B \<and> ?C \<and> ?D \<and> ?E"
  proof (cases "f = 0")
    case True
    have "digits_of n \<noteq> []" by simp
    moreover have d: "list_all is_digit (digits_of n)" by simp
    ultimately have "is_digit (hd (digits_of n))" "is_digit (last (digits_of n))"
      by (simp_all add: list_all_iff)
    moreover have "list_all (\<lambda>c. is_digit c \<or> c = CHR ''.'') (digits_of n)"
      using d by (simp add: list_all_iff)
    ultimately show ?thesis
      using True by (simp add: fixed_digits_0 unsigned_digits)
  next
    case False
    then obtain a b where s: "fixed_digits f n = a @ CHR ''.'' # b" and a: "a \<noteq> []"
      and b: "length b = f" and da: "list_all is_digit a" and db: "list_all is_digit b"
      and v: "digits_val (a @ b) = n"
      using fixed_digits_split [of f n] by auto
    have bne: "b \<noteq> []" using b False by auto
    have "is_digit (hd a)" using a da by (cases a) simp_all
    moreover have "is_digit (last b)" using bne db by (simp add: list_all_iff)
    moreover have "real (digits_val a) + real (digits_val b) / 10 ^ length b = real n / 10 ^ f"
    proof -
      have "n = digits_val a * 10 ^ f + digits_val b"
        using v b by (simp add: digits_val_append)
      then have "real n = real (digits_val a) * 10 ^ f + real (digits_val b)"
        by simp
      then show ?thesis by (simp add: b field_simps)
    qed
    ultimately show ?thesis
      using a da db bne by (auto simp: s unsigned_digits_point list_all_iff)
  qed
  then show ?A ?B ?C ?D ?E by simp_all
qed

text \<open>
  Reading back what \<open>toFixed\<close> printed gives the rounded number: \<open>Number(x.toFixed(f))\<close> is
  \<open>x\<close> rounded to \<open>f\<close> decimals, a tie going away from zero.
\<close>

lemma StringToNumber_toFixed:
  assumes "\<bar>x\<bar> < 10 ^ 21"
  shows "StringToNumber (toFixed h f (Num x)) = Num (round_to f x)"
proof -
  define n where "n = nat \<lfloor>\<bar>x\<bar> * 10 ^ f + 1 / 2\<rfloor>"
  note sh = fixed_digits_shape [of f n]
  show ?thesis
    using StringToNumber_unsigned [OF sh(1-4)]
    by (simp add: toFixed_fixed_digits [OF assms] n_def [symmetric] sh(5) round_to_def)
qed

lemma StringToNumber_toFixed_NaN [simp]: "StringToNumber (toFixed h f NaN) = NaN"
  by (simp add: toFixed_def numToString_def StringToNumber_eval)

section \<open>The risk score\<close>

lemma foldl_baseRisk:
  "foldl (\<lambda>s z. js_add s (Num (baseRisk z))) (Num acc) zs = Num (acc + sum_list (map baseRisk zs))"
  by (induction zs arbitrary: acc) (simp_all add: add.assoc)

lemma Math_min_Num [simp]: "Math_min (Num a) (Num b) = Num (min a b)"
  by (auto simp: Math_min_def min_def)

lemma within_clamps_Num:
  assumes "within_clamps sim"
  obtains rain seis blast where "sim = \<lparr>rainfallMm = Num rain, seismicMag = Num seis, blastingLevel = Num blast\<rparr>"
    and "0 \<le> rain" "rain \<le> 300" "0 \<le> seis" "seis \<le> 10" "0 \<le> blast" "blast \<le> 100"
proof -
  from assms obtain rain seis blast where "rainfallMm sim = Num rain" "seismicMag sim = Num seis"
    "blastingLevel sim = Num blast" "0 \<le> rain" "rain \<le> 300" "0 \<le> seis" "seis \<le> 10" "0 \<le> blast"
    "blast \<le> 100"
    by (auto simp: within_clamps_def in_range_def split: jsnum.splits)
  then show thesis by (intro that [of rain seis blast]) simp_all
qed

lemma computeRiskScore_composite:
  assumes "zs \<noteq> []"
    and "rainfallMm sim = Num rain" "seismicMag sim = Num seis" "blastingLevel sim = Num blast"
  shows "computeRiskScore h zs sim = toFixed h 1 (Num (composite zs sim * 10))"
  using assms
  by (simp add: computeRiskScore_def composite_def avgBaseRisk_def foldl_baseRisk value_of_def
      Let_def)

lemma avgBaseRisk_bounds:
  assumes "valid_zones zs"
  shows "0 \<le> avgBaseRisk zs" and "avgBaseRisk zs \<le> 1"
proof -
  have "list_all (\<lambda>z. 0 \<le> baseRisk z \<and> baseRisk z \<le> 1) zs \<Longrightarrow>
        0 \<le> sum_list (map baseRisk zs) \<and> sum_list (map baseRisk zs) \<le> real (length zs)"
    by (induction zs) auto
  moreover have "0 < real (length zs)" using assms by (simp add: valid_zones_def)
  ultimately show "0 \<le> avgBaseRisk zs" and "avgBaseRisk zs \<le> 1"
    using assms by (simp_all add: valid_zones_def avgBaseRisk_def)
qed

lemma composite_bounds:
  assumes "valid_zones zs" and "within_clamps sim"
  shows "0 \<le> composite zs sim" and "composite zs sim \<le> 1"
proof -
  from assms(2) obtain rain seis blast
    where "sim = \<lparr>rainfallMm = Num rain, seismicMag = Num seis, blastingLevel = Num blast\<rparr>"
      and "0 \<le> rain" "0 \<le> seis" "0 \<le> blast"
    by (rule within_clamps_Num)
  with avgBaseRisk_bounds [OF assms(1)]
  show "0 \<le> composite zs sim" and "composite zs sim \<le> 1"
    by (simp_all add: composite_def value_of_def min_def)
qed

lemma round_to_nonneg: "0 \<le> x \<Longrightarrow> round_to f x = real_of_int \<lfloor>x * 10 ^ f + 1 / 2\<rfloor> / 10 ^ f"
proof -
  assume "0 \<le> x"
  then have "0 \<le> \<lfloor>x * 10 ^ f + 1 / 2\<rfloor>" by simp
  then have "real (nat \<lfloor>x * 10 ^ f + 1 / 2\<rfloor>) = real_of_int \<lfloor>x * 10 ^ f + 1 / 2\<rfloor>" by simp
  with \<open>0 \<le> x\<close> show ?thesis by (simp add: round_to_def)
qed

lemma round_to_mono:
  assumes "0 \<le> x" and "x \<le> y"
  shows "round_to f x \<le> round_to f y"
proof -
  have "x * 10 ^ f + 1 / 2 \<le> y * 10 ^ f + 1 / 2" using assms by simp
  then have "\<lfloor>x * 10 ^ f + 1 / 2\<rfloor> \<le> \<lfloor>y * 10 ^ f + 1 / 2\<rfloor>" by (rule floor_mono)
  then show ?thesis
    using assms by (simp add: round_to_nonneg divide_right_mono)
qed


lemma round_to_range:
  assumes "0 \<le> x" and "x \<le> real k"
  shows "0 \<le> round_to f x" and "round_to f x \<le> real k"
proof -
  show "0 \<le> round_to f x" using assms(1) by (simp add: round_to_nonneg)
  have "x * 10 ^ f \<le> real k * 10 ^ f" using assms(2) by (simp add: mult_right_mono)
  then have "x * 10 ^ f + 1 / 2 < real k * 10 ^ f + 1" by linarith
  then have "x * 10 ^ f + 1 / 2 < real_of_int (int k * 10 ^ f) + 1" by simp
  then have "\<lfloor>x * 10 ^ f + 1 / 2\<rfloor> \<le> int k * 10 ^ f" by (simp only: floor_le_iff)
  then have "real_of_int \<lfloor>x * 10 ^ f + 1 / 2\<rfloor> \<le> real_of_int (int k * 10 ^ f)"
    by (simp only: of_int_le_iff)
  then have "real_of_int \<lfloor>x * 10 ^ f + 1 / 2\<rfloor> \<le> real k * 10 ^ f" by simp
  then show "round_to f x \<le> real k"
    using assms(1) by (simp add: round_to_nonneg pos_divide_le_eq)
qed
lemma risk_number_round:
  assumes "valid_zones zs" and "within_clamps sim"
  shows "computeRiskScore h zs sim = toFixed h 1 (Num (composite zs sim * 10))"
    and "risk_number h zs sim = Num (round_to 1 (composite zs sim * 10))"
proof -
  from assms(2) obtain rain seis blast
    where "sim = \<lparr>rainfallMm = Num rain, seismicMag = Num seis, blastingLevel = Num blast\<rparr>"
    by (rule within_clamps_Num)
  then show 1: "computeRiskScore h zs sim = toFixed h 1 (Num (composite zs sim * 10))"
    using assms(1) by (intro computeRiskScore_composite) (simp_all add: valid_zones_def)
  have "0 \<le> composite zs sim * 10" "composite zs sim * 10 \<le> 10"
    using composite_bounds [OF assms] by simp_all
  then have "\<bar>composite zs sim * 10\<bar> < 10 ^ 21" by simp
  then show "risk_number h zs sim = Num (round_to 1 (composite zs sim * 10))"
    by (simp add: risk_number_def 1 StringToNumber_toFixed)
qed


lemma valid_zones_zones: "valid_zones zones"
  by (simp add: valid_zones_def zones_def)



section \<open>Rule 1 of maybeCreateAlert\<close>

lemma maybeCreateAlert_alerts:
  "alerts (maybeCreateAlert h zs now r st)
     = take 50 (sensor_alerts now r (simulation st)
         @ (if js_ge (risk_number h zs (simulation st)) (Num 7.5) \<and> \<not> list_ex pending (alerts st)
            then [rockfall_alert h zs now (simulation st)] else [])
         @ alerts st)"
proof -
  have "(\<lambda>a. includes_str (msg a) ''probability exceeded'' \<and> \<not> acknowledged a) = pending"
    by (simp add: pending_def fun_eq_iff)
  then show ?thesis
    by (simp add: maybeCreateAlert_def Let_def sensor_alerts_def rockfall_alert_def risk_number_def)
qed

lemma maybeCreateAlert_simulation [simp]:
  "simulation (maybeCreateAlert h zs now r st) = simulation st"
  by (simp add: maybeCreateAlert_def Let_def)

lemma post_ack_simulation [simp]: "simulation (snd (post_ack p st)) = simulation st"
  by (simp add: post_ack_def Let_def split: option.splits)



lemma risk_number_storm: "risk_number h risky_zones storm = Num 10"
proof -
  have v: "valid_zones risky_zones" by (simp add: valid_zones_def risky_zones_def)
  have w: "within_clamps storm" by (simp add: within_clamps_def in_range_def storm_def)
  have "composite risky_zones storm * 10 = 10"
    by (simp add: composite_def avgBaseRisk_def risky_zones_def storm_def value_of_def)
  then show ?thesis
    by (simp add: risk_number_round(2) [OF v w] round_to_def)
qed


lemma StringToNumber_1: "StringToNumber ''1'' = Num 1"
  by (simp add: StringToNumber_eval)


section \<open>The seed alerts\<close>

lemma Math_max_Num [simp]: "Math_max (Num a) (Num b) = Num (max a b)"
  by (auto simp: Math_max_def max_def)

lemma clamp_clamped_or_NaN:
  "lo \<le> hi \<Longrightarrow> Math_max (Num lo) (Math_min (Num hi) v) = NaN
     \<or> in_range lo hi (Math_max (Num lo) (Math_min (Num hi) v))"
  by (cases v) (auto simp: in_range_def)

lemma initial_clamped_or_NaN: "clamped_or_NaN (simulation (initial_state t0))"
  by (simp add: clamped_or_NaN_def initial_state_def in_range_def)

lemma tick_clamped_or_NaN:
  "clamped_or_NaN (simulation st) \<Longrightarrow> clamped_or_NaN (simulation (tick h zs now r1 r2 r3 st))"
  using clamp_clamped_or_NaN [of 0 300] clamp_clamped_or_NaN [of 0 10]
  by (simp add: tick_def Let_def clamped_or_NaN_def)

lemma post_simulation_clamped_or_NaN:
  "clamped_or_NaN (simulation st) \<Longrightarrow>
   clamped_or_NaN (simulation (snd (post_simulation h now r body st)))"
  using clamp_clamped_or_NaN [of 0 300] clamp_clamped_or_NaN [of 0 10] clamp_clamped_or_NaN [of 0 100]
  by (simp add: post_simulation_def Let_def clamped_or_NaN_def split: option.splits)

text \<open>
  With the zone list of the program the composite is at most 0.69, so the score read by
  \<open>maybeCreateAlert\<close> is at most 6.9 (or \<open>NaN\<close>): the condition of rule 1 is false in every
  state the program can be in.
\<close>

lemma computeRiskScore_NaN:
  assumes "rainfallMm sim = NaN \<or> seismicMag sim = NaN \<or> blastingLevel sim = NaN"
    and "zs \<noteq> []"
  shows "risk_number h zs sim = NaN"
proof -
  obtain b where b: "js_div (foldl (\<lambda>s z. js_add s (Num (baseRisk z))) (Num 0) zs)
                           (Num (real (length zs))) = Num b"
    using assms(2) by (simp add: foldl_baseRisk)
  have n: "js_add NaN x = NaN" "js_add x NaN = NaN" "js_mul NaN x = NaN" for x
    by (cases x; simp)+
  have "computeRiskScore h zs sim = toFixed h 1 NaN"
    using assms(1) unfolding computeRiskScore_def Let_def b
    by (cases "rainfallMm sim"; cases "seismicMag sim"; cases "blastingLevel sim")
       (auto simp: Math_min_def n inf_of_sign_def)
  then show ?thesis by (simp add: risk_number_def)
qed

lemma rule1_never_fires:
  assumes "clamped_or_NaN sim"
  shows "\<not> js_ge (risk_number h zones sim) (Num 7.5)"
proof (cases "within_clamps sim")
  case True
  then obtain rain seis blast
    where s: "sim = \<lparr>rainfallMm = Num rain, seismicMag = Num seis, blastingLevel = Num blast\<rparr>"
    by (rule within_clamps_Num)
  have "composite zones sim \<le> 0.69"
    by (simp add: composite_def avgBaseRisk_def zones_def value_of_def s min_def)
  then have "composite zones sim * 10 \<le> 6.9" by simp
  moreover have 0: "0 \<le> composite zones sim * 10"
    using composite_bounds(1) [OF valid_zones_zones True] by simp
  ultimately have "round_to 1 (composite zones sim * 10) \<le> round_to 1 6.9"
    by (intro round_to_mono)
  also have "round_to 1 6.9 = 6.9" by (simp add: round_to_def)
  finally show ?thesis
    by (simp add: risk_number_round(2) [OF valid_zones_zones True] js_ge_def)
next
  case False
  with assms have "rainfallMm sim = NaN \<or> seismicMag sim = NaN \<or> blastingLevel sim = NaN"
    by (auto simp: clamped_or_NaN_def within_clamps_def)
  then have "risk_number h zones sim = NaN"
    by (rule computeRiskScore_NaN) (simp add: zones_def)
  then show ?thesis by (simp add: js_ge_def)
qed
lemma tick_alerts:
  "alerts (tick h zs now r1 r2 r3 st)
     = take 50 (sensor_alerts now r3 (simulation st)
         @ (if js_ge (risk_number h zs (simulation (tick h zs now r1 r2 r3 st))) (Num 7.5)
               \<and> \<not> list_ex pending (alerts st)
            then [rockfall_alert h zs now (simulation (tick h zs now r1 r2 r3 st))] else [])
         @ alerts st)"
  by (simp add: tick_def Let_def maybeCreateAlert_alerts sensor_alerts_def)

text \<open>
  C10.  The initial list is the two seed alerts, both unacknowledged; the first is pending
  (its message contains \<open>probability exceeded\<close>), the overview counts 2 active alerts, and
  the requests to acknowledge ids 1 and 2 succeed.  In every state whose list still holds
  the first seed alert unacknowledged, whatever the zones, the simulation and hence the
  risk score are, a tick adds no rule-1 alert: the new list is the old one with at most the
  alert of rule 2 in front, cut to 50.
\<close>

theorem seed_alert_blocks_rule1:
  "alerts (initial_state t0)
     = [seed_rockfall t0,
        \<lparr>alert_id = 2, zone = ''Sensor Network'',
         msg = ''Piezometer S002 showing irregular readings'', severity = Medium,
         time = t0 - 3600 * 1000, acknowledged = False\<rparr>]
   \<and> pending (seed_rockfall t0)
   \<and> activeAlerts (fst (get_overview h zs now (initial_state t0))) = 2
   \<and> fst (post_ack ''1'' (initial_state t0))
       = Inr (''Acknowledged'', (seed_rockfall t0)\<lparr>acknowledged := True\<rparr>)
   \<and> fst (post_ack ''2'' (initial_state t0))
       = Inr (''Acknowledged'',
              \<lparr>alert_id = 2, zone = ''Sensor Network'',
               msg = ''Piezometer S002 showing irregular readings'', severity = Medium,
               time = t0 - 3600 * 1000, acknowledged = True\<rparr>)
   \<and> (seed_rockfall t0 \<in> set (alerts st) \<longrightarrow>
        alerts (tick h zs now' r1 r2 r3 st)
          = take 50 (sensor_alerts now' r3 (simulation st) @ alerts st))"
proof (intro conjI impI)
  show "pending (seed_rockfall t0)"
    by (simp add: seed_rockfall_def pending_def)
  then show "seed_rockfall t0 \<in> set (alerts st) \<Longrightarrow>
        alerts (tick h zs now' r1 r2 r3 st)
          = take 50 (sensor_alerts now' r3 (simulation st) @ alerts st)"
    by (auto simp: tick_alerts list_ex_iff)
qed (simp_all add: initial_state_def seed_rockfall_def get_overview_def post_ack_def
      StringToNumber_1 StringToNumber_2)

theorem seed_alert_blocks_rule1_witness:
  "seed_rockfall 0 \<in> set (alerts ((initial_state 0)\<lparr>simulation := storm\<rparr>))
   \<and> js_ge (risk_number plain_host risky_zones storm) (Num 7.5)
   \<and> alerts (tick plain_host risky_zones 7 (1 / 2) (1 / 2) (1 / 2)
               ((initial_state 0)\<lparr>simulation := storm\<rparr>))
       = alerts (initial_state 0)"
proof -
  have 1: "seed_rockfall 0 \<in> set (alerts ((initial_state 0)\<lparr>simulation := storm\<rparr>))"
    by (simp add: initial_state_def seed_rockfall_def)
  have 2: "js_ge (risk_number plain_host risky_zones storm) (Num 7.5)"
    by (simp add: risk_number_storm js_ge_def)
  have "sensor_alerts 7 (1 / 2) storm = []"
    by (simp add: sensor_alerts_def storm_def)
  with 1 have "alerts (tick plain_host risky_zones 7 (1 / 2) (1 / 2) (1 / 2)
               ((initial_state 0)\<lparr>simulation := storm\<rparr>)) = alerts (initial_state 0)"
    using seed_alert_blocks_rule1 [of 0 plain_host risky_zones 0
        "(initial_state 0)\<lparr>simulation := storm\<rparr>" 7 "1 / 2" "1 / 2" "1 / 2"]
    by (simp add: initial_state_def seed_rockfall_def)
  with 1 2 show ?thesis by simp
qed

section \<open>Queries have no effect\<close>

lemma handle_query: "is_query q \<Longrightarrow> snd (handle h zs now q st) = st"
  by (cases q)
     (simp_all add: get_root_def get_settings_def get_overview_def get_sensors_def
        get_sensor_history_def get_alerts_def get_predictions_def get_map_def get_simulation_def
        export_report_def)

lemma run_queries: "list_all query_event evs \<Longrightarrow> run h zs evs st = st"
proof (induction evs)
  case Nil
  show ?case by (simp add: run_def)
next
  case (Cons e evs)
  obtain now ev where e: "e = (now, ev)" by (cases e)
  with Cons.prems obtain q where q: "ev = Request q" "is_query q"
    by (cases ev) simp_all
  have "step h zs e st = st" by (simp add: e q handle_query)
  with Cons show ?case by (simp add: run_def)
qed

lemma same_alerts_refl [simp]: "same_alerts xs xs"
  by (simp add: same_alerts_def list_all2_same)

lemma same_alerts_acknowledge: "same_alerts xs (acknowledge i xs)"
  unfolding same_alerts_def
  by (induction xs) (simp_all add: list_all2_same)

lemma step_keeps_alerts:
  "\<not> may_create_alerts e \<Longrightarrow> same_alerts (alerts st) (alerts (step h zs e st))"
proof -
  assume a: "\<not> may_create_alerts e"
  obtain now ev where e: "e = (now, ev)" by (cases e)
  with a obtain q where q: "ev = Request q" by (cases ev) simp_all
  show ?thesis
  proof (cases "is_query q")
    case True
    then show ?thesis by (simp add: e q handle_query)
  next
    case False
    with a e q show ?thesis
      by (cases q)
         (auto simp: post_ack_def post_settings_def Let_def same_alerts_acknowledge
            split: option.splits)
  qed
qed

text \<open>
  C9.  A read-only request (the root page, the settings, the overview, the sensors and a
  sensor's history, the alerts, the predictions, the map, the simulation, the report)
  leaves the whole state as it was: simulation, alerts and settings.  So does any sequence
  of them.  And an event that is neither a tick nor a parameter update leaves the alert list
  with the same alerts in the same order, at most one of them newly acknowledged.
\<close>

theorem queries_are_read_only:
  "(is_query q \<longrightarrow> snd (handle h zs now q st) = st)
   \<and> (list_all query_event evs \<longrightarrow> run h zs evs st = st)
   \<and> (\<not> may_create_alerts e \<longrightarrow> same_alerts (alerts st) (alerts (step h zs e st)))"
  using handle_query [of q h zs now st] run_queries [of evs h zs st] step_keeps_alerts [of e st h zs]
  by blast

theorem queries_are_read_only_witness:
  "snd (handle plain_host zones 5 GetOverview (initial_state 0)) = initial_state 0
   \<and> run plain_host zones [(5, Request GetAlerts), (6, Request GetOverview), (7, Request GetAlerts),
         (8, Request ExportReport), (9, Request GetSimulation)] (initial_state 0) = initial_state 0
   \<and> same_alerts (alerts (initial_state 0))
         (alerts (step plain_host zones (5, Request (PostAck ''1'')) (initial_state 0)))"
  using queries_are_read_only [of GetOverview plain_host zones 5 "initial_state 0"
      "[(5, Request GetAlerts), (6, Request GetOverview), (7, Request GetAlerts),
        (8, Request ExportReport), (9, Request GetSimulation)]" "(5, Request (PostAck ''1''))"]
  by simp

section \<open>The states the server can reach\<close>

lemma handle_clamped_or_NaN:
  "clamped_or_NaN (simulation st) \<Longrightarrow> clamped_or_NaN (simulation (snd (handle h zs now q st)))"
proof (cases "is_query q")
  case True
  assume "clamped_or_NaN (simulation st)"
  with True show ?thesis by (simp add: handle_query)
next
  case False
  assume "clamped_or_NaN (simulation st)"
  with False show ?thesis
    by (cases q)
       (simp_all add: post_simulation_clamped_or_NaN post_settings_def Let_def split: option.splits)
qed

lemma step_clamped_or_NaN:
  "clamped_or_NaN (simulation st) \<Longrightarrow> clamped_or_NaN (simulation (step h zs e st))"
proof -
  assume a: "clamped_or_NaN (simulation st)"
  obtain now ev where e: "e = (now, ev)" by (cases e)
  show ?thesis
    using a by (cases ev) (simp_all add: e tick_clamped_or_NaN handle_clamped_or_NaN)
qed

lemma run_clamped_or_NaN:
  "clamped_or_NaN (simulation st) \<Longrightarrow> clamped_or_NaN (simulation (run h zs evs st))"
  unfolding run_def
  by (induction evs arbitrary: st) (simp_all add: step_clamped_or_NaN)

text \<open>
  In no state that ticks and requests lead to from the initial state does the score of the
  program's zones reach 7.5.
\<close>

lemma rule1_never_fires_in_run:
  "\<not> js_ge (risk_number h zones (simulation (run h zones evs (initial_state t0)))) (Num 7.5)"
  by (intro rule1_never_fires run_clamped_or_NaN initial_clamped_or_NaN)

section \<open>Binary64: the exponent and the rounding\<close>

lemma binade_up_spec:
  "1 \<le> x \<Longrightarrow> 0 \<le> binade_up x \<and> 2 powi binade_up x \<le> x \<and> x < 2 powi (binade_up x + 1)"
proof (induction x rule: binade_up.induct)
  case (1 x)
  show ?case
  proof (cases "2 \<le> x")
    case True
    then have ih: "0 \<le> binade_up (x / 2) \<and> 2 powi binade_up (x / 2) \<le> x / 2
        \<and> x / 2 < 2 powi (binade_up (x / 2) + 1)"
      using 1 by simp
    have e: "binade_up x = binade_up (x / 2) + 1"
      using True by (subst binade_up.simps) simp
    show ?thesis
      using ih unfolding e by (simp add: power_int_add)
  next
    case False
    then have "binade_up x = 0" by (subst binade_up.simps) simp
    with False 1 show ?thesis by simp
  qed
qed

lemma binade_down_spec:
  assumes "k \<le> 1022" and "0 \<le> x" and "x < 2"
  shows "- 1022 \<le> binade_down k x \<and> binade_down k x \<le> - int k
       \<and> x / 2 ^ k < 2 powi (binade_down k x + 1)
       \<and> (2 powi binade_down k x \<le> x / 2 ^ k \<or> binade_down k x = - 1022)"
  using assms
proof (induction k x rule: binade_down.induct)
  case (1 k x)
  show ?case
  proof (cases "x < 1 \<and> k < 1022")
    case True
    then have e: "binade_down k x = binade_down (Suc k) (2 * x)"
      by (subst binade_down.simps) simp
    have "- 1022 \<le> binade_down (Suc k) (2 * x) \<and> binade_down (Suc k) (2 * x) \<le> - int (Suc k)
       \<and> 2 * x / 2 ^ Suc k < 2 powi (binade_down (Suc k) (2 * x) + 1)
       \<and> (2 powi binade_down (Suc k) (2 * x) \<le> 2 * x / 2 ^ Suc k
            \<or> binade_down (Suc k) (2 * x) = - 1022)"
      using True 1 by simp
    then show ?thesis unfolding e by simp
  next
    case False
    then have e: "binade_down k x = - int k" by (subst binade_down.simps) auto
    have p: "2 powi (- int k) = 1 / (2::real) ^ k"
      by (simp add: power_int_minus field_simps)
    have "2 powi (- int k + 1) = 2 powi (- int k) * (2::real)"
      by (subst power_int_add) simp_all
    then have p1: "2 powi (- int k + 1) = 2 / (2::real) ^ k"
      by (simp add: p)
    have "x / 2 ^ k < 2 / 2 ^ k" using 1(4) by (simp add: divide_strict_right_mono)
    moreover have "1 / 2 ^ k \<le> x / 2 ^ k \<or> k = 1022"
      using False 1(2) by (auto simp: divide_right_mono)
    ultimately show ?thesis
      using 1(2) unfolding e p p1 by auto
  qed
qed

lemma expo_spec:
  "- 1022 \<le> expo x" (is ?A)
  "\<bar>x\<bar> < 2 powi (expo x + 1)" (is ?B)
  "2 powi expo x \<le> \<bar>x\<bar> \<or> expo x = - 1022" (is ?C)
proof -
  have "?A \<and> ?B \<and> ?C"
  proof (cases "1 \<le> \<bar>x\<bar>")
    case True
    then show ?thesis using binade_up_spec [of "\<bar>x\<bar>"] by (simp add: expo_def)
  next
    case False
    then show ?thesis using binade_down_spec [of 0 "\<bar>x\<bar>"] by (simp add: expo_def)
  qed
  then show ?A ?B ?C by simp_all
qed

lemma expo_unique:
  assumes "2 powi e \<le> \<bar>x\<bar>" and "\<bar>x\<bar> < 2 powi (e + 1)" and "- 1022 \<le> e"
  shows "expo x = e"
proof (rule antisym)
  show "expo x \<le> e"
  proof (rule ccontr)
    assume "\<not> expo x \<le> e"
    then have 1: "e + 1 \<le> expo x" by simp
    then have "expo x \<noteq> - 1022" using assms(3) by simp
    then have "2 powi expo x \<le> \<bar>x\<bar>" using expo_spec(3) [of x] by simp
    moreover have "(2::real) powi (e + 1) \<le> 2 powi expo x"
      using 1 by (intro power_int_increasing) simp_all
    ultimately show False using assms(2) by simp
  qed
  show "e \<le> expo x"
  proof (rule ccontr)
    assume "\<not> e \<le> expo x"
    then have "expo x + 1 \<le> e" by simp
    then have "(2::real) powi (expo x + 1) \<le> 2 powi e"
      by (intro power_int_increasing) simp_all
    then show False using expo_spec(2) [of x] assms(1) by simp
  qed
qed

lemma expo_subnormal:
  assumes "\<bar>x\<bar> < 2 powi (- 1022)"
  shows "expo x = - 1022"
proof (rule ccontr)
  assume a: "expo x \<noteq> - 1022"
  then have "2 powi expo x \<le> \<bar>x\<bar>" using expo_spec(3) [of x] by simp
  moreover have "(2::real) powi (- 1022) \<le> 2 powi expo x"
    using expo_spec(1) [of x] by (intro power_int_increasing) simp_all
  ultimately show False using assms by simp
qed
lemma round_even_of_int [simp]: "round_even (of_int n) = n"
  by (simp add: round_even_def)

lemma round_even_bounds: "\<lfloor>y\<rfloor> \<le> round_even y" "round_even y \<le> \<lfloor>y\<rfloor> + 1"
  by (simp_all add: round_even_def Let_def)

lemma round_even_mono:
  assumes "x \<le> y"
  shows "round_even x \<le> round_even y"
proof (cases "\<lfloor>x\<rfloor> = \<lfloor>y\<rfloor>")
  case True
  have "x - of_int \<lfloor>y\<rfloor> \<le> y - of_int \<lfloor>y\<rfloor>" using assms by simp
  then show ?thesis
    unfolding round_even_def Let_def True by auto
next
  case False
  have "\<lfloor>x\<rfloor> \<le> \<lfloor>y\<rfloor>" using assms by (rule floor_mono)
  with False have "\<lfloor>x\<rfloor> + 1 \<le> \<lfloor>y\<rfloor>" by simp
  then show ?thesis
    using round_even_bounds(2) [of x] round_even_bounds(1) [of y] by linarith
qed

lemma round_even_close: "\<bar>of_int (round_even y) - y\<bar> \<le> 1 / 2"
proof -
  have "of_int \<lfloor>y\<rfloor> \<le> y" "y < of_int \<lfloor>y\<rfloor> + 1" by linarith+
  then show ?thesis
    unfolding round_even_def Let_def by (auto simp: abs_le_iff) 
qed

lemma expo_mono:
  assumes "\<bar>x\<bar> \<le> \<bar>y\<bar>"
  shows "expo x \<le> expo y"
proof (rule ccontr)
  assume "\<not> expo x \<le> expo y"
  then have 1: "expo y + 1 \<le> expo x" by simp
  then have "expo x \<noteq> - 1022" using expo_spec(1) [of y] by simp
  then have "2 powi expo x \<le> \<bar>x\<bar>" using expo_spec(3) [of x] by simp
  moreover have "(2::real) powi (expo y + 1) \<le> 2 powi expo x"
    using 1 by (intro power_int_increasing) simp_all
  ultimately show False using expo_spec(2) [of y] assms by simp
qed

lemma ulp_pos [simp]: "0 < (2::real) powi j"
  by simp

lemma fl_mono_nonneg:
  assumes "0 \<le> x" and "x \<le> y"
  shows "fl x \<le> fl y"
proof (cases "expo x = expo y")
  case True
  have "x / 2 powi (expo y - 52) \<le> y / 2 powi (expo y - 52)"
    using assms(2) by (simp add: divide_right_mono)
  then have "round_even (x / 2 powi (expo y - 52)) \<le> round_even (y / 2 powi (expo y - 52))"
    by (rule round_even_mono)
  then show ?thesis
    unfolding fl_def True by (simp add: mult_right_mono)
next
  case False
  have "expo x \<le> expo y" using assms by (intro expo_mono) simp
  with False have lt: "expo x + 1 \<le> expo y" by simp
  define ux :: real where "ux = 2 powi (expo x - 52)"
  define uy :: real where "uy = 2 powi (expo y - 52)"
  have ux: "0 < ux" and uy: "0 < uy" by (simp_all add: ux_def uy_def)
  have px: "2 ^ 53 * ux = 2 powi (expo x + 1)"
  proof -
    have "(2::real) powi (expo x + 1) = 2 powi 53 * 2 powi (expo x - 52)"
      using power_int_add [of "2::real" 53 "expo x - 52"] by (simp add: add.commute)
    then show ?thesis by (simp add: ux_def)
  qed
  have py: "2 ^ 52 * uy = 2 powi expo y"
  proof -
    have "(2::real) powi expo y = 2 powi 52 * 2 powi (expo y - 52)"
      using power_int_add [of "2::real" 52 "expo y - 52"] by simp
    then show ?thesis by (simp add: uy_def)
  qed
  have "x < 2 ^ 53 * ux" unfolding px using expo_spec(2) [of x] assms(1) by simp
  then have "x / ux \<le> of_int (2 ^ 53)" using ux by (simp add: field_simps)
  then have "round_even (x / ux) \<le> round_even (of_int (2 ^ 53))" by (rule round_even_mono)
  then have "of_int (round_even (x / ux)) \<le> (2::real) ^ 53"
    by (simp only: round_even_of_int) (metis of_int_le_iff of_int_numeral of_int_power)
  then have 1: "fl x \<le> 2 powi (expo x + 1)"
    using ux unfolding fl_def ux_def [symmetric] px [symmetric] by (simp add: mult_right_mono)
  have "expo y \<noteq> - 1022" using lt expo_spec(1) [of x] by simp
  then have "2 ^ 52 * uy \<le> y" unfolding py using expo_spec(3) [of y] assms by simp
  then have "of_int (2 ^ 52) \<le> y / uy" using uy by (simp add: field_simps)
  then have "round_even (of_int (2 ^ 52)) \<le> round_even (y / uy)" by (rule round_even_mono)
  then have "(2::real) ^ 52 \<le> of_int (round_even (y / uy))"
    by (simp only: round_even_of_int) (metis of_int_le_iff of_int_numeral of_int_power)
  then have 2: "2 powi expo y \<le> fl y"
    using uy unfolding fl_def uy_def [symmetric] py [symmetric] by (simp add: mult_right_mono)
  have "(2::real) powi (expo x + 1) \<le> 2 powi expo y"
    using lt by (intro power_int_increasing) simp_all
  with 1 2 show ?thesis by linarith
qed
section \<open>Binary64: evaluating a rounding\<close>

lemma expo_eval:
  assumes "k \<le> 1074" and "2 ^ 52 \<le> \<bar>x\<bar> * 2 ^ k" and "\<bar>x\<bar> * 2 ^ k < 2 ^ 53"
  shows "expo x = 52 - int k"
proof (rule expo_unique)
  have p: "(2::real) powi (52 - int k) = 2 ^ 52 / 2 ^ k"
    using power_int_diff [of "2::real" 52 "int k"] by simp
  have "52 - int k + 1 = 53 - int k" by simp
  then have q: "(2::real) powi (52 - int k + 1) = 2 ^ 53 / 2 ^ k"
    using power_int_diff [of "2::real" 53 "int k"] by simp
  show "2 powi (52 - int k) \<le> \<bar>x\<bar>"
    unfolding p using assms(2) by (simp add: field_simps)
  show "\<bar>x\<bar> < 2 powi (52 - int k + 1)"
    unfolding q using assms(3) by (simp add: field_simps)
  show "- 1022 \<le> 52 - int k" using assms(1) by simp
qed

lemma fl_eval:
  assumes "k \<le> 1074" and "2 ^ 52 \<le> \<bar>x\<bar> * 2 ^ k" and "\<bar>x\<bar> * 2 ^ k < 2 ^ 53"
  shows "fl x = of_int (round_even (x * 2 ^ k)) / 2 ^ k"
proof -
  have "(2::real) powi (expo x - 52) = inverse (2 ^ k)"
    unfolding expo_eval [OF assms] by (simp add: power_int_minus)
  then show ?thesis by (simp add: fl_def divide_inverse)
qed

lemma round_even_near:
  assumes "\<bar>y - of_int m\<bar> < 1 / 2"
  shows "round_even y = m"
proof -
  from assms have a: "of_int m - 1 / 2 < y" "y < of_int m + 1 / 2" by linarith+
  have "\<lfloor>y\<rfloor> \<le> m" using a by (simp add: floor_le_iff)
  moreover have "m - 1 \<le> \<lfloor>y\<rfloor>" using a by (simp add: le_floor_iff)
  ultimately have "\<lfloor>y\<rfloor> = m \<or> \<lfloor>y\<rfloor> = m - 1" by linarith
  then show ?thesis
  proof
    assume f: "\<lfloor>y\<rfloor> = m"
    have "y - of_int \<lfloor>y\<rfloor> < 1 / 2" using a(2) by (simp add: f)
    then show ?thesis by (simp add: round_even_def Let_def f)
  next
    assume f: "\<lfloor>y\<rfloor> = m - 1"
    have "1 / 2 < y - of_int \<lfloor>y\<rfloor>" using a(1) by (simp add: f)
    then have "\<not> y - of_int \<lfloor>y\<rfloor> < 1 / 2" by simp
    then show ?thesis using \<open>1 / 2 < y - of_int \<lfloor>y\<rfloor>\<close>
      by (simp add: round_even_def Let_def f)
  qed
qed

lemma fl_near:
  assumes "k \<le> 1074" and "2 ^ 52 \<le> \<bar>x\<bar> * 2 ^ k" and "\<bar>x\<bar> * 2 ^ k < 2 ^ 53"
    and "\<bar>x * 2 ^ k - of_int m\<bar> < 1 / 2"
  shows "fl x = of_int m / 2 ^ k"
  using fl_eval [OF assms(1-3)] round_even_near [OF assms(4)] by simp

lemma fl_0 [simp]: "fl 0 = 0"
  by (simp add: fl_def round_even_def)

lemma fl_nonneg: "0 \<le> x \<Longrightarrow> 0 \<le> fl x"
  using fl_mono_nonneg [of 0 x] by simp

lemma fl_close:
  assumes "\<bar>x\<bar> \<le> 16"
  shows "\<bar>fl x - x\<bar> \<le> 1 / 2 ^ 49"
proof -
  define u :: real where "u = 2 powi (expo x - 52)"
  have u: "0 < u" by (simp add: u_def)
  have "expo x \<le> 4"
  proof (rule ccontr)
    assume "\<not> expo x \<le> 4"
    then have 5: "5 \<le> expo x" by simp
    then have "expo x \<noteq> - 1022" by simp
    then have "2 powi expo x \<le> \<bar>x\<bar>" using expo_spec(3) [of x] by simp
    moreover have "(2::real) powi 5 \<le> 2 powi expo x"
      using 5 by (intro power_int_increasing) simp_all
    ultimately show False using assms by simp
  qed
  then have "u \<le> 2 powi (- 48)"
    unfolding u_def by (intro power_int_increasing) simp_all
  moreover have "(2::real) powi (- 48) = 1 / 2 ^ 48"
    using power_int_minus [of "2::real" 48] by (simp add: inverse_eq_divide)
  ultimately have u48: "u \<le> 1 / 2 ^ 48" by simp
  have "\<bar>of_int (round_even (x / u)) - x / u\<bar> \<le> 1 / 2" by (rule round_even_close)
  then have "\<bar>of_int (round_even (x / u)) - x / u\<bar> * u \<le> 1 / 2 * u"
    using u by (intro mult_right_mono) simp_all
  moreover have "\<bar>of_int (round_even (x / u)) - x / u\<bar> * u = \<bar>fl x - x\<bar>"
  proof -
    have "\<bar>of_int (round_even (x / u)) - x / u\<bar> * u = \<bar>(of_int (round_even (x / u)) - x / u) * u\<bar>"
      using u by (simp add: abs_mult)
    also have "(of_int (round_even (x / u)) - x / u) * u = fl x - x"
      using u by (simp add: fl_def u_def [symmetric] left_diff_distrib)
    finally show ?thesis .
  qed
  ultimately have "\<bar>fl x - x\<bar> \<le> 1 / 2 * u" by simp
  with u48 show ?thesis by simp
qed

lemma to_double_Num:
  assumes "\<bar>x\<bar> \<le> 16"
  shows "to_double x = Num (fl x)"
proof -
  have "(1::real) / 2 ^ 49 \<le> 1" by simp
  then have "\<bar>fl x\<bar> \<le> 17" using fl_close [OF assms] assms by linarith
  moreover have "(17::real) < 2 ^ 1024" by simp
  ultimately show ?thesis by (simp add: to_double_def)
qed

lemma to_double_near:
  assumes "k \<le> 1074" and "2 ^ 52 \<le> \<bar>x\<bar> * 2 ^ k" and "\<bar>x\<bar> * 2 ^ k < 2 ^ 53"
    and "\<bar>x * 2 ^ k - of_int m\<bar> < 1 / 2"
  shows "to_double x = Num (of_int m / 2 ^ k)"
proof -
  have f: "fl x = of_int m / 2 ^ k" by (rule fl_near [OF assms])
  have "\<bar>of_int m\<bar> \<le> \<bar>x * 2 ^ k\<bar> + 1 / 2" using assms(4) by linarith
  also have "\<bar>x * 2 ^ k\<bar> = \<bar>x\<bar> * 2 ^ k" by (simp add: abs_mult)
  finally have "\<bar>real_of_int m\<bar> < 2 ^ 54" using assms(3) by simp
  moreover  have "\<bar>real_of_int m\<bar> / 2 ^ k \<le> \<bar>real_of_int m\<bar> / 1"
    by (rule frac_le) simp_all
  ultimately have "\<bar>real_of_int m\<bar> / 2 ^ k < 2 ^ 54" by simp
  then have "\<bar>fl x\<bar> < 2 ^ 54" by (simp add: f abs_divide del: mult_1_left)
  moreover have "(2::real) ^ 54 < 2 ^ 1024" by simp
  ultimately have "\<bar>fl x\<bar> < 2 ^ 1024" by linarith
  then show ?thesis by (simp add: to_double_def f)
qed

lemma to_double_0 [simp]: "to_double 0 = Num 0"
  by (simp add: to_double_def)

text \<open>The same when the exact value is half way between two doubles.\<close>

lemma round_even_tie:
  assumes "\<bar>y - of_int m\<bar> = 1 / 2" and "even m"
  shows "round_even y = m"
proof -
  from assms(1) have "y = of_int m + 1 / 2 \<or> y = of_int m - 1 / 2" by linarith
  then show ?thesis
  proof
    assume y: "y = of_int m + 1 / 2"
    have "\<lfloor>y\<rfloor> = m" unfolding y by linarith
    then show ?thesis using assms(2) by (simp add: round_even_def Let_def y)
  next
    assume y: "y = of_int m - 1 / 2"
    have f: "\<lfloor>y\<rfloor> = m - 1" unfolding y by linarith
    have "y - of_int \<lfloor>y\<rfloor> = 1 / 2" using f unfolding y by simp
    then show ?thesis using assms(2) by (simp add: round_even_def Let_def f)
  qed
qed

lemma to_double_tie:
  assumes "k \<le> 1074" and "2 ^ 52 \<le> \<bar>x\<bar> * 2 ^ k" and "\<bar>x\<bar> * 2 ^ k < 2 ^ 53"
    and "\<bar>x * 2 ^ k - of_int m\<bar> = 1 / 2" and "even m"
  shows "to_double x = Num (of_int m / 2 ^ k)"
proof -
  have f: "fl x = of_int m / 2 ^ k"
    using fl_eval [OF assms(1-3)] round_even_tie [OF assms(4,5)] by simp
  have "\<bar>of_int m\<bar> \<le> \<bar>x * 2 ^ k\<bar> + 1 / 2" using assms(4) by linarith
  also have "\<bar>x * 2 ^ k\<bar> = \<bar>x\<bar> * 2 ^ k" by (simp add: abs_mult)
  finally have "\<bar>real_of_int m\<bar> < 2 ^ 54" using assms(3) by simp
  moreover have "\<bar>real_of_int m\<bar> / 2 ^ k \<le> \<bar>real_of_int m\<bar> / 1"
    by (rule frac_le) simp_all
  ultimately have "\<bar>real_of_int m\<bar> / 2 ^ k < 2 ^ 54" by simp
  then have "\<bar>fl x\<bar> < 2 ^ 54" by (simp add: f abs_divide del: mult_1_left)
  moreover have "(2::real) ^ 54 < 2 ^ 1024" by simp
  ultimately have "\<bar>fl x\<bar> < 2 ^ 1024" by linarith
  then show ?thesis by (simp add: to_double_def f)
qed

section \<open>The risk score in binary64\<close>

text \<open>The doubles that the decimal literals of the source denote.\<close>

lemma lit_values:
  "lit (3 / 5) = Num (5404319552844595 / 9007199254740992)"
  "lit (1 / 5) = Num (3602879701896397 / 18014398509481984)"
  "lit (3 / 20) = Num (5404319552844595 / 36028797018963968)"
  "lit (1 / 20) = Num (3602879701896397 / 72057594037927936)"
  "lit (9 / 20) = Num (8106479329266893 / 18014398509481984)"
  "lit (7 / 10) = Num (3152519739159347 / 4503599627370496)"
  "lit (2 / 5) = Num (3602879701896397 / 9007199254740992)"
  "lit (1 / 4) = Num (1 / 4)"
  "lit (3 / 4) = Num (3 / 4)"
proof -
  show "lit (3 / 5) = Num (5404319552844595 / 9007199254740992)"
    using to_double_near [of 53 "3 / 5" 5404319552844595] by (simp add: lit_def)
  show "lit (1 / 5) = Num (3602879701896397 / 18014398509481984)"
    using to_double_near [of 55 "1 / 5" 7205759403792794] by (simp add: lit_def)
  show "lit (3 / 20) = Num (5404319552844595 / 36028797018963968)"
    using to_double_near [of 55 "3 / 20" 5404319552844595] by (simp add: lit_def)
  show "lit (1 / 20) = Num (3602879701896397 / 72057594037927936)"
    using to_double_near [of 57 "1 / 20" 7205759403792794] by (simp add: lit_def)
  show "lit (9 / 20) = Num (8106479329266893 / 18014398509481984)"
    using to_double_near [of 54 "9 / 20" 8106479329266893] by (simp add: lit_def)
  show "lit (7 / 10) = Num (3152519739159347 / 4503599627370496)"
    using to_double_near [of 53 "7 / 10" 6305039478318694] by (simp add: lit_def)
  show "lit (2 / 5) = Num (3602879701896397 / 9007199254740992)"
    using to_double_near [of 54 "2 / 5" 7205759403792794] by (simp add: lit_def)
  show "lit (1 / 4) = Num (1 / 4)"
    using to_double_near [of 54 "1 / 4" 4503599627370496] by (simp add: lit_def)
  show "lit (3 / 4) = Num (3 / 4)"
    using to_double_near [of 53 "3 / 4" 6755399441055744] by (simp add: lit_def)
qed

lemma add64_Num: "add64 (Num a) (Num b) = to_double (a + b)"
  by (simp add: add64_def round_num_def)

lemma sub64_Num: "sub64 (Num a) (Num b) = to_double (a - b)"
  by (simp add: sub64_def js_sub_def round_num_def)

lemma mul64_Num: "mul64 (Num a) (Num b) = to_double (a * b)"
  by (simp add: mul64_def round_num_def)

lemma div64_Num: "b \<noteq> 0 \<Longrightarrow> div64 (Num a) (Num b) = to_double (a / b)"
  by (simp add: div64_def round_num_def)

text \<open>
  The average base risk of the program's zones and the first term of the composite: the
  sums 0.75 + 0.45 and 1.2 + 0.25, the quotient by 3 and the product by 0.6, each rounded.
\<close>

lemma zones_roundings:
  "to_double (3 / 4) = Num (3 / 4)"
  "to_double (1 / 4) = Num (1 / 4)"
  "to_double (21617278211378381 / 18014398509481984) = Num (5404319552844595 / 4503599627370496)"
  "to_double (6530219459687219 / 4503599627370496) = Num (6530219459687219 / 4503599627370496)"
  "to_double (6530219459687219 / 13510798882111488) = Num (8706959279582959 / 18014398509481984)"
  "to_double (47055190280471874002453737256605 / 162259276829213363391578010288128) = Num (5224175567749775 / 18014398509481984)"
proof -
  show "to_double (3 / 4) = Num (3 / 4)"
    using to_double_near [of 53 "3 / 4" 6755399441055744] by simp
  show "to_double (1 / 4) = Num (1 / 4)"
    using to_double_near [of 54 "1 / 4" 4503599627370496] by simp
  show "to_double (21617278211378381 / 18014398509481984) = Num (5404319552844595 / 4503599627370496)"
    using to_double_near [of 52 "21617278211378381 / 18014398509481984" 5404319552844595] by simp
  show "to_double (6530219459687219 / 4503599627370496) = Num (6530219459687219 / 4503599627370496)"
    using to_double_near [of 52 "6530219459687219 / 4503599627370496" 6530219459687219] by simp
  show "to_double (6530219459687219 / 13510798882111488) = Num (8706959279582959 / 18014398509481984)"
    using to_double_near [of 54 "6530219459687219 / 13510798882111488" 8706959279582959] by simp
  show "to_double (47055190280471874002453737256605 / 162259276829213363391578010288128) = Num (5224175567749775 / 18014398509481984)"
    using to_double_near [of 54 "47055190280471874002453737256605 / 162259276829213363391578010288128" 5224175567749775] by simp
qed

lemma avgBaseRisk64_zones:
  "avgBaseRisk64 zones = Num (8706959279582959 / 18014398509481984)"
  by (simp add: avgBaseRisk64_def zones_def lit_values add64_Num div64_Num zones_roundings)

lemma first_term_zones:
  "mul64 (avgBaseRisk64 zones) (lit 0.6) = Num (5224175567749775 / 18014398509481984)"
  by (simp add: avgBaseRisk64_zones lit_values mul64_Num zones_roundings)

text \<open>The error of one operation, and of the operations in a row.\<close>

lemma influence64_close:
  assumes "0 \<le> v" and "0 < c" and "v \<le> 16 * c"
  shows "influence64 (Num v) c = Num (min 1 (fl (v / c)))"
    and "0 \<le> min 1 (fl (v / c))"
    and "min 1 (fl (v / c)) \<le> 1"
    and "\<bar>min 1 (fl (v / c)) - min 1 (v / c)\<bar> \<le> 1 / 2 ^ 49"
proof -
  have n: "0 \<le> v / c" using assms by simp
  have "v / c \<le> 16" using assms by (simp add: field_simps)
  with n have a: "\<bar>v / c\<bar> \<le> 16" by simp
  show "influence64 (Num v) c = Num (min 1 (fl (v / c)))"
    using assms(2) by (simp add: influence64_def div64_Num to_double_Num [OF a])
  show "0 \<le> min 1 (fl (v / c))" using fl_nonneg [OF n] by simp
  show "min 1 (fl (v / c)) \<le> 1" by simp
  show "\<bar>min 1 (fl (v / c)) - min 1 (v / c)\<bar> \<le> 1 / 2 ^ 49"
    using fl_close [OF a] by linarith
qed

lemma mul64_close:
  assumes "0 \<le> x" and "x \<le> 1" and "0 \<le> x'" and "x' \<le> 1" and "\<bar>x - x'\<bar> \<le> d"
    and "0 \<le> c" and "c \<le> 1" and "\<bar>c - c'\<bar> \<le> d"
  shows "mul64 (Num x) (Num c) = Num (fl (x * c))"
    and "0 \<le> fl (x * c)"
    and "\<bar>fl (x * c) - x' * c'\<bar> \<le> 1 / 2 ^ 49 + 2 * d"
proof -
  have xc: "0 \<le> x * c" "x * c \<le> 1" using assms by (simp_all add: mult_le_one)
  then have a: "\<bar>x * c\<bar> \<le> 16" by simp
  show "mul64 (Num x) (Num c) = Num (fl (x * c))"
    by (simp add: mul64_Num to_double_Num [OF a])
  show "0 \<le> fl (x * c)" using xc(1) by (rule fl_nonneg)
  have d: "0 \<le> d" using assms(5) by linarith
  have "x * c - x' * c' = (x - x') * c + x' * (c - c')" by (simp add: algebra_simps)
  moreover have "\<bar>(x - x') * c\<bar> \<le> d * 1"
    unfolding abs_mult using assms d by (intro mult_mono) simp_all
  moreover have "\<bar>x' * (c - c')\<bar> \<le> 1 * d"
    unfolding abs_mult using assms d by (intro mult_mono) simp_all
  ultimately have "\<bar>x * c - x' * c'\<bar> \<le> 2 * d" by linarith
  with fl_close [OF a] show "\<bar>fl (x * c) - x' * c'\<bar> \<le> 1 / 2 ^ 49 + 2 * d" by linarith
qed

lemma add64_close:
  assumes "\<bar>a - a'\<bar> \<le> da" and "\<bar>b - b'\<bar> \<le> db" and "\<bar>a + b\<bar> \<le> 16"
  shows "add64 (Num a) (Num b) = Num (fl (a + b))"
    and "\<bar>fl (a + b) - (a' + b')\<bar> \<le> 1 / 2 ^ 49 + da + db"
proof -
  show "add64 (Num a) (Num b) = Num (fl (a + b))"
    by (simp add: add64_Num to_double_Num [OF assms(3)])
  show "\<bar>fl (a + b) - (a' + b')\<bar> \<le> 1 / 2 ^ 49 + da + db"
    using fl_close [OF assms(3)] assms(1,2) by linarith
qed
text \<open>
  Ten times the composite, computed in binary64 for the program's zones and a state within
  its clamps, is a finite number within \<open>1 / 10 ^ 12\<close> of the exact value of the formula.
\<close>

lemma risk64_close:
  assumes "within_clamps sim"
  shows "mul64 (composite64 zones sim) (Num 10) = Num (risk64 zones sim)"
    and "\<bar>risk64 zones sim - composite zones sim * 10\<bar> \<le> 1 / 10 ^ 12"
proof -
  from assms obtain rain seis blast
    where sim: "sim = \<lparr>rainfallMm = Num rain, seismicMag = Num seis, blastingLevel = Num blast\<rparr>"
      and b: "0 \<le> rain" "rain \<le> 300" "0 \<le> seis" "seis \<le> 10" "0 \<le> blast" "blast \<le> 100"
    by (rule within_clamps_Num)
  define e :: real where "e = 1 / 2 ^ 49"
  have e: "0 < e" "e \<le> 1 / 1000" by (simp_all add: e_def)
  have e131: "131 * e \<le> 1 / 10 ^ 12" by (simp add: e_def)
  define ri where "ri = min 1 (fl (rain / 200))"
  define si where "si = min 1 (fl (seis / 8))"
  define bi where "bi = min 1 (fl (blast / 100))"
  define ri' where "ri' = min 1 (rain / 200)"
  define si' where "si' = min 1 (seis / 8)"
  define bi' where "bi' = min 1 (blast / 100)"
  have r': "0 \<le> ri'" "ri' \<le> 1" "0 \<le> si'" "si' \<le> 1" "0 \<le> bi'" "bi' \<le> 1"
    using b by (simp_all add: ri'_def si'_def bi'_def)
  have cr: "0 \<le> rain" "(0::real) < 200" "rain \<le> 16 * 200" using b by simp_all
  have cs: "0 \<le> seis" "(0::real) < 8" "seis \<le> 16 * 8" using b by simp_all
  have cb: "0 \<le> blast" "(0::real) < 100" "blast \<le> 16 * 100" using b by simp_all
  note ri = influence64_close [OF cr, folded ri_def ri'_def e_def]
  note si = influence64_close [OF cs, folded si_def si'_def e_def]
  note bi = influence64_close [OF cb, folded bi_def bi'_def e_def]
  define c2 :: real where "c2 = 3602879701896397 / 18014398509481984"
  define c15 :: real where "c15 = 5404319552844595 / 36028797018963968"
  define c05 :: real where "c05 = 3602879701896397 / 72057594037927936"
  define A :: real where "A = 5224175567749775 / 18014398509481984"
  have l: "lit 0.2 = Num c2" "lit 0.15 = Num c15" "lit 0.05 = Num c05"
    by (simp_all add: lit_values c2_def c15_def c05_def)
  have c2: "0 \<le> c2" "c2 \<le> 1" "\<bar>c2 - 1 / 5\<bar> \<le> e" by (simp_all add: c2_def e_def)
  have c15: "0 \<le> c15" "c15 \<le> 1" "\<bar>c15 - 3 / 20\<bar> \<le> e" by (simp_all add: c15_def e_def)
  have c05: "0 \<le> c05" "c05 \<le> 1" "\<bar>c05 - 1 / 20\<bar> \<le> e" by (simp_all add: c05_def e_def)
  have A1: "mul64 (avgBaseRisk64 zones) (lit 0.6) = Num A"
    unfolding A_def by (rule first_term_zones)
  have A: "0 \<le> A" "A \<le> 1" "\<bar>A - 29 / 100\<bar> \<le> e"
    by (simp_all add: A_def e_def)
  note p2 = mul64_close [OF ri(2,3) r'(1,2) ri(4) c2, folded e_def]
  note p3 = mul64_close [OF si(2,3) r'(3,4) si(4) c15, folded e_def]
  note p4 = mul64_close [OF bi(2,3) r'(5,6) bi(4) c05, folded e_def]
  define s1 where "s1 = fl (A + fl (ri * c2))"
  define s2 where "s2 = fl (s1 + fl (si * c15))"
  define s3 where "s3 = fl (s2 + fl (bi * c05))"
  have m1: "\<bar>A + fl (ri * c2)\<bar> \<le> 16" using A p2(2,3) r'(1,2) e by linarith
  note s1 = add64_close [OF A(3) p2(3) m1, folded e_def s1_def]
  have m2: "\<bar>s1 + fl (si * c15)\<bar> \<le> 16" using s1(2) p3(2,3) r' e by linarith
  note s2 = add64_close [OF s1(2) p3(3) m2, folded e_def s2_def]
  have m3: "\<bar>s2 + fl (bi * c05)\<bar> \<le> 16" using s2(2) p4(2,3) r' e by linarith
  note s3 = add64_close [OF s2(2) p4(3) m3, folded e_def s3_def]
  have c: "composite64 zones sim = Num s3"
    by (simp only: composite64_def sim simulation.simps A1 l ri(1) si(1) bi(1) p2(1) p3(1) p4(1)
        s1(1) s2(1) s3(1))
  have ex: "composite zones sim = 29 / 100 + ri' * (1 / 5) + si' * (3 / 20) + bi' * (1 / 20)"
    by (simp add: composite_def avgBaseRisk_def zones_def sim value_of_def ri'_def si'_def bi'_def)
  have d3: "\<bar>s3 - composite zones sim\<bar> \<le> 13 * e" using s3(2) by (simp add: ex)
  have "\<bar>s3\<bar> \<le> 1" using d3 r' e by (simp add: ex)
  then have m: "\<bar>s3 * 10\<bar> \<le> 16" by simp
  have v: "mul64 (Num s3) (Num 10) = Num (fl (s3 * 10))"
    by (simp add: mul64_Num to_double_Num [OF m])
  then have r: "risk64 zones sim = fl (s3 * 10)" by (simp add: risk64_def c value_of_def)
  show "mul64 (composite64 zones sim) (Num 10) = Num (risk64 zones sim)" by (simp only: c v r)
  have "\<bar>fl (s3 * 10) - s3 * 10\<bar> \<le> e" using fl_close [OF m] by (simp only: e_def)
  then have "\<bar>risk64 zones sim - composite zones sim * 10\<bar> \<le> 131 * e"
    using d3 by (simp only: r)
  then show "\<bar>risk64 zones sim - composite zones sim * 10\<bar> \<le> 1 / 10 ^ 12"
    using e131 by (rule order_trans)
qed

text \<open>The roundings of the computation in the initial state, and after 5 mm of rain.\<close>

lemma initial_roundings:
  "to_double (5224175567749775 / 18014398509481984) = Num (5224175567749775 / 18014398509481984)"
  "to_double (26120877838748875 / 9007199254740992) = Num (6530219459687219 / 2251799813685248)"
proof -
  show "to_double (5224175567749775 / 18014398509481984) = Num (5224175567749775 / 18014398509481984)"
    using to_double_near [of 54 "5224175567749775 / 18014398509481984" 5224175567749775] by simp
  show "to_double (26120877838748875 / 9007199254740992) = Num (6530219459687219 / 2251799813685248)"
    using to_double_near [of 51 "26120877838748875 / 9007199254740992" 6530219459687219] by simp
qed

lemma drizzle_roundings:
  "to_double (1 / 40) = Num (3602879701896397 / 144115188075855872)"
  "to_double (12980742146337070512478121581609 / 2596148429267413814265248164610048) = Num (1441151880758559 / 288230376151711744)"
  "to_double (85027960964754959 / 288230376151711744) = Num (5314247560297185 / 18014398509481984)"
  "to_double (5314247560297185 / 18014398509481984) = Num (5314247560297185 / 18014398509481984)"
  "to_double (26571237801485925 / 9007199254740992) = Num (6642809450371481 / 2251799813685248)"
proof -
  show "to_double (1 / 40) = Num (3602879701896397 / 144115188075855872)"
    using to_double_near [of 58 "1 / 40" 7205759403792794] by simp
  show "to_double (12980742146337070512478121581609 / 2596148429267413814265248164610048) = Num (1441151880758559 / 288230376151711744)"
    using to_double_near [of 60 "12980742146337070512478121581609 / 2596148429267413814265248164610048" 5764607523034236] by simp
  show "to_double (85027960964754959 / 288230376151711744) = Num (5314247560297185 / 18014398509481984)"
    using to_double_near [of 54 "85027960964754959 / 288230376151711744" 5314247560297185] by simp
  show "to_double (5314247560297185 / 18014398509481984) = Num (5314247560297185 / 18014398509481984)"
    using to_double_near [of 54 "5314247560297185 / 18014398509481984" 5314247560297185] by simp
  show "to_double (26571237801485925 / 9007199254740992) = Num (6642809450371481 / 2251799813685248)"
    using to_double_near [of 51 "26571237801485925 / 9007199254740992" 6642809450371481] by simp
qed




lemma fl_10: "fl 10 = 10"
  using fl_near [of 49 10 5629499534213120] by simp
lemma composite_zones_bounds:
  assumes "within_clamps sim"
  shows "29 / 100 \<le> composite zones sim" and "composite zones sim \<le> 69 / 100"
proof -
  from assms obtain rain seis blast
    where "sim = \<lparr>rainfallMm = Num rain, seismicMag = Num seis, blastingLevel = Num blast\<rparr>"
      and "0 \<le> rain" "0 \<le> seis" "0 \<le> blast"
    by (rule within_clamps_Num)
  then show "29 / 100 \<le> composite zones sim" and "composite zones sim \<le> 69 / 100"
    by (simp_all add: composite_def avgBaseRisk_def zones_def value_of_def min_def)
qed

lemma computeRiskScore64_composite64:
  "computeRiskScore64 h zs sim = toFixed h 1 (mul64 (composite64 zs sim) (Num 10))"
  by (simp add: computeRiskScore64_def composite64_def avgBaseRisk64_def influence64_def Let_def)

lemma risk_number64_round:
  assumes "within_clamps sim"
  shows "0 \<le> risk64 zones sim"
    and "risk64 zones sim \<le> 10"
    and "computeRiskScore64 h zones sim = toFixed h 1 (Num (risk64 zones sim))"
    and "risk_number64 h zones sim = Num (fl (round_to 1 (risk64 zones sim)))"
    and "in_range 0 10 (risk_number64 h zones sim)"
proof -
  note c = risk64_close [OF assms]
  note b = composite_zones_bounds [OF assms]
  have c1: "\<bar>risk64 zones sim - composite zones sim * 10\<bar> \<le> 1"
    using c(2) by (rule order_trans) simp
  show 0: "0 \<le> risk64 zones sim" using c1 b by linarith
  show 1: "risk64 zones sim \<le> 10" using c1 b by linarith
  show p: "computeRiskScore64 h zones sim = toFixed h 1 (Num (risk64 zones sim))"
    by (simp only: computeRiskScore64_composite64 c(1))
  have 2: "risk64 zones sim \<le> real 10" using 1 by simp
  note r = round_to_range [OF 0 2, of 1]
  have "\<bar>round_to 1 (risk64 zones sim)\<bar> \<le> 16" using r by simp
  then have d: "to_double (round_to 1 (risk64 zones sim)) = Num (fl (round_to 1 (risk64 zones sim)))"
    by (rule to_double_Num)
  have "\<bar>risk64 zones sim\<bar> < 10 ^ 21" using 0 1 by simp
  then have "StringToNumber (toFixed h 1 (Num (risk64 zones sim))) = Num (round_to 1 (risk64 zones sim))"
    by (rule StringToNumber_toFixed)
  then show n: "risk_number64 h zones sim = Num (fl (round_to 1 (risk64 zones sim)))"
    by (simp only: risk_number64_def StringToNumber64_def p round_num_def jsnum.simps d)
  have "0 \<le> fl (round_to 1 (risk64 zones sim))" using r(1) by (rule fl_nonneg)
  moreover have "fl (round_to 1 (risk64 zones sim)) \<le> fl 10"
    using r by (intro fl_mono_nonneg) simp_all
  ultimately show "in_range 0 10 (risk_number64 h zones sim)"
    by (simp add: n in_range_def fl_10)
qed




section \<open>The map query\<close>

text \<open>The roundings of three zone scores.\<close>

lemma fresh_roundings:
  "to_double 1 = Num 1"
  "to_double (1 / 2) = Num (1 / 2)"
  "to_double (16212958658533785 / 36028797018963968) = Num (2026619832316723 / 4503599627370496)"
  "to_double (2026619832316723 / 4503599627370496) = Num (2026619832316723 / 4503599627370496)"
  "to_double (3602879701896397 / 144115188075855872) = Num (3602879701896397 / 144115188075855872)"
  "to_double (68454714336031533 / 144115188075855872) = Num (4278419646001971 / 9007199254740992)"
proof -
  show "to_double 1 = Num 1"
    using to_double_near [of 52 "1" 4503599627370496] by simp
  show "to_double (1 / 2) = Num (1 / 2)"
    using to_double_near [of 53 "1 / 2" 4503599627370496] by simp
  show "to_double (16212958658533785 / 36028797018963968) = Num (2026619832316723 / 4503599627370496)"
    using to_double_tie [of 54 "16212958658533785 / 36028797018963968" 8106479329266892] by simp
  show "to_double (2026619832316723 / 4503599627370496) = Num (2026619832316723 / 4503599627370496)"
    using to_double_near [of 54 "2026619832316723 / 4503599627370496" 8106479329266892] by simp
  show "to_double (3602879701896397 / 144115188075855872) = Num (3602879701896397 / 144115188075855872)"
    using to_double_near [of 58 "3602879701896397 / 144115188075855872" 7205759403792794] by simp
  show "to_double (68454714336031533 / 144115188075855872) = Num (4278419646001971 / 9007199254740992)"
    using to_double_near [of 54 "68454714336031533 / 144115188075855872" 8556839292003942] by simp
qed

lemma damp_roundings:
  "to_double (9 / 20) = Num (8106479329266893 / 18014398509481984)"
  "to_double (8106479329266893 / 72057594037927936) = Num (8106479329266893 / 72057594037927936)"
  "to_double (40532396646334461 / 72057594037927936) = Num (9 / 16)"
  "to_double (16212958658533785 / 144115188075855872) = Num (2026619832316723 / 18014398509481984)"
  "to_double (12159718993900339 / 18014398509481984) = Num (3039929748475085 / 4503599627370496)"
  "to_double (100880631653099117 / 144115188075855872) = Num (6305039478318695 / 9007199254740992)"
proof -
  show "to_double (9 / 20) = Num (8106479329266893 / 18014398509481984)"
    using to_double_near [of 54 "9 / 20" 8106479329266893] by simp
  show "to_double (8106479329266893 / 72057594037927936) = Num (8106479329266893 / 72057594037927936)"
    using to_double_near [of 56 "8106479329266893 / 72057594037927936" 8106479329266893] by simp
  show "to_double (40532396646334461 / 72057594037927936) = Num (9 / 16)"
    using to_double_near [of 53 "40532396646334461 / 72057594037927936" 5066549580791808] by simp
  show "to_double (16212958658533785 / 144115188075855872) = Num (2026619832316723 / 18014398509481984)"
    using to_double_tie [of 56 "16212958658533785 / 144115188075855872" 8106479329266892] by simp
  show "to_double (12159718993900339 / 18014398509481984) = Num (3039929748475085 / 4503599627370496)"
    using to_double_tie [of 53 "12159718993900339 / 18014398509481984" 6079859496950170] by simp
  show "to_double (100880631653099117 / 144115188075855872) = Num (6305039478318695 / 9007199254740992)"
    using to_double_near [of 53 "100880631653099117 / 144115188075855872" 6305039478318695] by simp
qed

lemma rainy_roundings:
  "to_double (5 / 64) = Num (5 / 64)"
  "to_double (3152519739159347 / 4503599627370496) = Num (3152519739159347 / 4503599627370496)"
  "to_double (18014398509481985 / 4611686018427387904) = Num (1 / 256)"
  "to_double (3170111925203763 / 4503599627370496) = Num (3170111925203763 / 4503599627370496)"
proof -
  show "to_double (5 / 64) = Num (5 / 64)"
    using to_double_near [of 56 "5 / 64" 5629499534213120] by simp
  show "to_double (3152519739159347 / 4503599627370496) = Num (3152519739159347 / 4503599627370496)"
    using to_double_near [of 53 "3152519739159347 / 4503599627370496" 6305039478318694] by simp
  show "to_double (18014398509481985 / 4611686018427387904) = Num (1 / 256)"
    using to_double_near [of 60 "18014398509481985 / 4611686018427387904" 4503599627370496] by simp
  show "to_double (3170111925203763 / 4503599627370496) = Num (3170111925203763 / 4503599627370496)"
    using to_double_near [of 53 "3170111925203763 / 4503599627370496" 6340223850407526] by simp
qed

text \<open>A row of the map, in the words of the specification.\<close>

lemma get_map_length: "length (fst (get_map h zs u st)) = length zs"
  by (simp add: get_map_def)

lemma get_map_row:
  assumes "i < length zs"
  shows "fst (get_map h zs u st) ! i
           = zone_def.extend (zs ! i)
               \<lparr>score = StringToNumber64
                          (toFixed h 2 (zone_score64 (zs ! i) (simulation st) (noise64 (u i)))),
                zone_severity = severity_of64 (zone_score64 (zs ! i) (simulation st) (noise64 (u i)))\<rparr>"
  using assms
  by (simp add: get_map_def nth_enumerate_eq zone_score64_def severity_of64_def noise64_def
      influence64_def Let_def)

lemma severity_of64_tiers:
  "severity_of64 s = High \<longleftrightarrow> js_gt s (lit 0.7)"
  "severity_of64 s = Medium \<longleftrightarrow> js_gt s (lit 0.4) \<and> js_le s (lit 0.7)"
  "severity_of64 s = Low \<longleftrightarrow> \<not> js_gt s (lit 0.4)"
  "severity_of64 (lit 0.7) = Medium"
  by (cases s; simp add: severity_of64_def lit_values js_gt_def)+

lemma fl_1: "fl 1 = 1"
  using fl_near [of 52 1 4503599627370496] by simp

lemma score_rounded:
  assumes "in_range 0 1 s"
  shows "StringToNumber64 (toFixed h 2 s)
           = Num (fl (real_of_int \<lfloor>value_of s * 100 + 1 / 2\<rfloor> / 100))"
proof -
  from assms obtain x where s: "s = Num x" and x: "0 \<le> x" "x \<le> real 1"
    by (cases s) (simp_all add: in_range_def)
  have r: "round_to 2 x = real_of_int \<lfloor>x * 100 + 1 / 2\<rfloor> / 100"
    using round_to_nonneg [OF x(1), of 2] by simp
  have "\<bar>round_to 2 x\<bar> \<le> 16" using round_to_range [OF x, of 2] by simp
  then have d: "to_double (round_to 2 x) = Num (fl (round_to 2 x))" by (rule to_double_Num)
  have "\<bar>x\<bar> < 10 ^ 21" using x by simp
  then have "StringToNumber (toFixed h 2 (Num x)) = Num (round_to 2 x)"
    by (rule StringToNumber_toFixed)
  then have "StringToNumber64 (toFixed h 2 (Num x)) = Num (fl (round_to 2 x))"
    by (simp only: StringToNumber64_def round_num_def jsnum.simps d)
  then show ?thesis by (simp only: s r value_of_def jsnum.simps)
qed

text \<open>The noise of a draw below 1 is below 0.05.\<close>

lemma rnd64_default:
  assumes "0 \<le> u" and "u \<le> 1"
  shows "rnd64 u 0 1 = Num (fl (fl u))"
proof -
  have a: "\<bar>u\<bar> \<le> 16" using assms by simp
  have "0 \<le> fl u" using assms(1) by (rule fl_nonneg)
  moreover have "fl u \<le> 1" using fl_mono_nonneg [OF assms] by (simp add: fl_1)
  ultimately have b: "\<bar>fl u\<bar> \<le> 16" by simp
  show ?thesis
    by (simp add: rnd64_def sub64_Num mul64_Num add64_Num fresh_roundings(1) to_double_Num [OF a]
        to_double_Num [OF b])
qed

lemma noise64_range:
  assumes "0 \<le> u" and "u \<le> 1 - 1 / 2 ^ 53"
  shows "noise64 u = Num (fl (fl (fl u) * (3602879701896397 / 72057594037927936)))"
    and "0 \<le> fl (fl (fl u) * (3602879701896397 / 72057594037927936))"
    and "fl (fl (fl u) * (3602879701896397 / 72057594037927936)) < 1 / 20"
proof -
  define t :: real where "t = 9007199254740991 / 9007199254740992"
  define c :: real where "c = 3602879701896397 / 72057594037927936"
  have ut: "u \<le> t" using assms(2) by (simp add: t_def)
  have t1: "t \<le> 1" by (simp add: t_def)
  have ft: "fl t = t"
    unfolding t_def using fl_near [of 53 "9007199254740991 / 9007199254740992" 9007199254740991]
    by simp
  have f1: "0 \<le> fl u" using assms(1) by (rule fl_nonneg)
  have f1': "fl u \<le> t" using fl_mono_nonneg [OF assms(1) ut] by (simp only: ft)
  have f2: "0 \<le> fl (fl u)" using f1 by (rule fl_nonneg)
  have f2': "fl (fl u) \<le> t" using fl_mono_nonneg [OF f1 f1'] by (simp only: ft)
  have c: "0 \<le> c" "c \<le> 1" by (simp_all add: c_def)
  have p: "0 \<le> fl (fl u) * c" using f2 c(1) by simp
  have p': "fl (fl u) * c \<le> t * c" using f2' c(1) by (rule mult_right_mono)
  have "fl (fl u) * c \<le> 1 * 1" using f2 f2' t1 c by (intro mult_mono) simp_all
  then have a: "\<bar>fl (fl u) * c\<bar> \<le> 16" using p by simp
  have u1: "u \<le> 1" using ut t1 by simp
  have "noise64 u = Num (fl (fl (fl u) * c))"
    by (simp add: noise64_def rnd64_default [OF assms(1) u1] lit_values mul64_Num c_def [symmetric]
        to_double_Num [OF a])
  then show "noise64 u = Num (fl (fl (fl u) * (3602879701896397 / 72057594037927936)))"
    by (simp only: c_def)
  have 0: "0 \<le> fl (fl (fl u) * c)" using p by (rule fl_nonneg)
  then show "0 \<le> fl (fl (fl u) * (3602879701896397 / 72057594037927936))"
    by (simp only: c_def)
  have "fl (t * c) = 7205759403792793 / 2 ^ 57"
    unfolding t_def c_def
    using fl_near [of 57 "9007199254740991 / 9007199254740992 * (3602879701896397 / 72057594037927936)"
        7205759403792793]
    by simp
  moreover have "fl (fl (fl u) * c) \<le> fl (t * c)" using p p' by (rule fl_mono_nonneg)
  moreover have "(7205759403792793::real) / 2 ^ 57 < 1 / 20" by simp
  ultimately have "fl (fl (fl u) * c) < 1 / 20" by linarith
  then show "fl (fl (fl u) * (3602879701896397 / 72057594037927936)) < 1 / 20"
    by (simp only: c_def)
qed

text \<open>For a base risk in [0,1] and a state within its clamps the zone score is in [0,1].\<close>

lemma mul64_unit:
  assumes "0 \<le> x" and "x \<le> 1" and "0 \<le> c" and "c \<le> 1"
  shows "mul64 (Num x) (Num c) = Num (fl (x * c))" and "0 \<le> fl (x * c)" and "fl (x * c) \<le> 1"
proof -
  have xc: "0 \<le> x * c" "x * c \<le> 1" using assms by (simp_all add: mult_le_one)
  then have a: "\<bar>x * c\<bar> \<le> 16" by simp
  show "mul64 (Num x) (Num c) = Num (fl (x * c))"
    by (simp add: mul64_Num to_double_Num [OF a])
  show "0 \<le> fl (x * c)" using xc(1) by (rule fl_nonneg)
  show "fl (x * c) \<le> 1" using fl_mono_nonneg [OF xc] by (simp add: fl_1)
qed

lemma add64_bounded:
  assumes "0 \<le> a" and "0 \<le> b" and "a + b \<le> 15"
  shows "add64 (Num a) (Num b) = Num (fl (a + b))" and "0 \<le> fl (a + b)"
    and "fl (a + b) \<le> a + b + 1"
proof -
  have n: "0 \<le> a + b" using assms by simp
  then have m: "\<bar>a + b\<bar> \<le> 16" using assms(3) by simp
  show "add64 (Num a) (Num b) = Num (fl (a + b))"
    by (simp add: add64_Num to_double_Num [OF m])
  show "0 \<le> fl (a + b)" using n by (rule fl_nonneg)
  have "(1::real) / 2 ^ 49 \<le> 1" by simp
  then show "fl (a + b) \<le> a + b + 1" using fl_close [OF m] by linarith
qed

lemma zone_score64_range:
  assumes "within_clamps sim" and "0 \<le> baseRisk z" and "baseRisk z \<le> 1"
    and "0 \<le> n" and "n \<le> 1"
  shows "in_range 0 1 (zone_score64 z sim (Num n))"
proof -
  from assms(1) obtain rain seis blast
    where sim: "sim = \<lparr>rainfallMm = Num rain, seismicMag = Num seis, blastingLevel = Num blast\<rparr>"
      and b: "0 \<le> rain" "rain \<le> 300" "0 \<le> seis" "seis \<le> 10" "0 \<le> blast" "blast \<le> 100"
    by (rule within_clamps_Num)
  define c6 :: real where "c6 = 5404319552844595 / 9007199254740992"
  define c25 :: real where "c25 = 1 / 4"
  define c15 :: real where "c15 = 5404319552844595 / 36028797018963968"
  have l: "lit 0.6 = Num c6" "lit 0.25 = Num c25" "lit 0.15 = Num c15"
    by (simp_all add: lit_values c6_def c25_def c15_def)
  have c: "0 \<le> c6" "c6 \<le> 1" "0 \<le> c25" "c25 \<le> 1" "0 \<le> c15" "c15 \<le> 1"
    by (simp_all add: c6_def c25_def c15_def)
  have "\<bar>baseRisk z\<bar> \<le> 16" using assms(2,3) by simp
  then have lb: "lit (baseRisk z) = Num (fl (baseRisk z))"
    unfolding lit_def by (rule to_double_Num)
  have fb: "0 \<le> fl (baseRisk z)" "fl (baseRisk z) \<le> 1"
    using fl_nonneg [OF assms(2)] fl_mono_nonneg [OF assms(2,3)] by (simp_all add: fl_1)
  have cr: "0 \<le> rain" "(0::real) < 200" "rain \<le> 16 * 200" using b by simp_all
  have cs: "0 \<le> seis" "(0::real) < 8" "seis \<le> 16 * 8" using b by simp_all
  note ri = influence64_close [OF cr]
  note si = influence64_close [OF cs]
  note t1 = mul64_unit [OF fb c(1,2)]
  note t2 = mul64_unit [OF ri(2,3) c(3,4)]
  note t3 = mul64_unit [OF si(2,3) c(5,6)]
  have "fl (fl (baseRisk z) * c6) + fl (min 1 (fl (rain / 200)) * c25) \<le> 15"
    using t1(3) t2(3) by simp
  note s1 = add64_bounded [OF t1(2) t2(2) this]
  have "fl (fl (baseRisk z) * c6) + fl (min 1 (fl (rain / 200)) * c25)
          + fl (min 1 (fl (seis / 8)) * c15) \<le> 4"
    using t1(3) t2(3) t3(3) by simp
  then have "fl (fl (fl (baseRisk z) * c6) + fl (min 1 (fl (rain / 200)) * c25))
          + fl (min 1 (fl (seis / 8)) * c15) \<le> 15"
    using s1(3) by simp
  note s2 = add64_bounded [OF s1(2) t3(2) this]
  have "fl (fl (fl (fl (baseRisk z) * c6) + fl (min 1 (fl (rain / 200)) * c25))
          + fl (min 1 (fl (seis / 8)) * c15)) + n \<le> 15"
    using s2(3) s1(3) t1(3) t2(3) t3(3) assms(5) by simp
  note s3 = add64_bounded [OF s2(2) assms(4) this]
  show ?thesis
    using s3(2)
    by (simp only: zone_score64_def sim simulation.simps l lb ri(1) si(1) t1(1) t2(1) t3(1)
        s1(1) s2(1) s3(1) Math_min_Num in_range_def jsnum.simps)
      simp
qed

text \<open>Three zone scores: the first zone in the initial state and in a state with 90 mm of
  rain and magnitude 6, the draw being 0.5, and in a state with 200 mm of rain, the draw
  being 5/64.\<close>

lemma zone_score64_fresh:
  "zone_score64 (zones ! 0) (simulation (initial_state 0)) (noise64 (const_draw (1 / 2) 0))
     = Num (4278419646001971 / 9007199254740992)"
  by (simp add: zone_score64_def influence64_def noise64_def rnd64_def zones_def const_draw_def lit_values
      add64_Num sub64_Num mul64_Num div64_Num zones_roundings initial_roundings drizzle_roundings
      fresh_roundings initial_state_def)

lemma zone_score64_damp:
  "zone_score64 (zones ! 0) (simulation damp_state) (noise64 (const_draw (1 / 2) 0))
     = Num (6305039478318695 / 9007199254740992)"
  by (simp add: zone_score64_def influence64_def noise64_def rnd64_def zones_def const_draw_def lit_values
      add64_Num sub64_Num mul64_Num div64_Num zones_roundings initial_roundings drizzle_roundings
      fresh_roundings damp_roundings damp_state_def)

lemma zone_score64_rainy:
  "zone_score64 (zones ! 0) (simulation rainy_state) (noise64 (const_draw (5 / 64) 0))
     = Num (3170111925203763 / 4503599627370496)"
  by (simp add: zone_score64_def influence64_def noise64_def rnd64_def zones_def const_draw_def lit_values
      add64_Num sub64_Num mul64_Num div64_Num zones_roundings initial_roundings drizzle_roundings
      fresh_roundings rainy_roundings rainy_state_def)

lemma lit_47_hundredths: "lit (47 / 100) = Num (2116691824864133 / 4503599627370496)" "fl (47 / 100) = 2116691824864133 / 4503599627370496"
  using to_double_near [of 54 "47 / 100" 8466767299456532] fl_near [of 54 "47 / 100" 8466767299456532]
  by (simp_all add: lit_def)

lemma fl_7_tenths: "fl (7 / 10) = 3152519739159347 / 4503599627370496"
  using fl_near [of 53 "7 / 10" 6305039478318694] by simp

text \<open>
  C8, as the code has it.  Let \<open>s\<close> be the zone score of the specification for the zone at
  position \<open>i\<close>, computed in binary64 as the source does, with the noise \<open>rnd() * 0.05\<close> of
  the draw \<open>u i\<close>; for a draw in [0,1) (a double below 1 is at most \<open>1 - 1 / 2 ^ 53\<close>) the
  noise is in [0, 0.05).  In every state the row returned for the zone is the zone with
  severity High exactly when \<open>s > 0.7\<close>, Medium exactly when \<open>0.4 < s \<le> 0.7\<close> and Low
  otherwise, 0.7 and 0.4 being the doubles of these literals (so \<open>s = 0.7\<close> gives Medium),
  and with the score \<open>Number(s.toFixed(2))\<close>.  When \<open>s\<close> is in [0,1], as it is for a base
  risk in [0,1] and a state within its clamps, that score is the double nearest to \<open>s\<close>
  rounded to two decimals.
\<close>

theorem get_map_zone_rows:
  fixes zs :: "zone_def list" and st :: state and u :: "nat \<Rightarrow> real" and i :: nat
    and h :: "real \<Rightarrow> string"
  assumes "i < length zs" and "0 \<le> u i" and "u i \<le> 1 - 1 / 2 ^ 53"
  defines "s \<equiv> zone_score64 (zs ! i) (simulation st) (noise64 (u i))"
  shows "length (fst (get_map h zs u st)) = length zs
       \<and> fst (get_map h zs u st) ! i
           = zone_def.extend (zs ! i)
               \<lparr>score = StringToNumber64 (toFixed h 2 s), zone_severity = severity_of64 s\<rparr>
       \<and> js_le (Num 0) (noise64 (u i)) \<and> js_lt (noise64 (u i)) (Num 0.05)
       \<and> (severity_of64 s = High \<longleftrightarrow> js_gt s (lit 0.7))
       \<and> (severity_of64 s = Medium \<longleftrightarrow> js_gt s (lit 0.4) \<and> js_le s (lit 0.7))
       \<and> (severity_of64 s = Low \<longleftrightarrow> \<not> js_gt s (lit 0.4))
       \<and> severity_of64 (lit 0.7) = Medium
       \<and> (in_range 0 1 s \<longrightarrow>
            StringToNumber64 (toFixed h 2 s)
              = Num (fl (real_of_int \<lfloor>value_of s * 100 + 1 / 2\<rfloor> / 100)))
       \<and> (within_clamps (simulation st) \<and> 0 \<le> baseRisk (zs ! i) \<and> baseRisk (zs ! i) \<le> 1
            \<longrightarrow> in_range 0 1 s)"
proof -
  note n = noise64_range [OF assms(2,3)]
  have 1: "length (fst (get_map h zs u st)) = length zs" by (rule get_map_length)
  have 2: "fst (get_map h zs u st) ! i
           = zone_def.extend (zs ! i)
               \<lparr>score = StringToNumber64 (toFixed h 2 s), zone_severity = severity_of64 s\<rparr>"
    unfolding s_def using assms(1) by (rule get_map_row)
  have 3: "js_le (Num 0) (noise64 (u i))" "js_lt (noise64 (u i)) (Num 0.05)"
    using n(2,3) by (simp_all add: n(1))
  have 4: "in_range 0 1 s \<longrightarrow>
            StringToNumber64 (toFixed h 2 s)
              = Num (fl (real_of_int \<lfloor>value_of s * 100 + 1 / 2\<rfloor> / 100))"
    using score_rounded by blast
  have 5: "within_clamps (simulation st) \<and> 0 \<le> baseRisk (zs ! i) \<and> baseRisk (zs ! i) \<le> 1
            \<longrightarrow> in_range 0 1 s"
  proof
    assume a: "within_clamps (simulation st) \<and> 0 \<le> baseRisk (zs ! i) \<and> baseRisk (zs ! i) \<le> 1"
    have "fl (fl (fl (u i)) * (3602879701896397 / 72057594037927936)) \<le> 1"
      using n(3) by simp
    with a n(2) show "in_range 0 1 s"
      unfolding s_def n(1) by (intro zone_score64_range) simp_all
  qed
  from 1 2 3 4 5 severity_of64_tiers(1-3) [of s] severity_of64_tiers(4) show ?thesis by blast
qed

theorem get_map_zone_rows_witness:
  "0 < length zones \<and> 0 \<le> const_draw (1 / 2) 0 \<and> const_draw (1 / 2) 0 \<le> 1 - 1 / 2 ^ 53
   \<and> within_clamps (simulation (initial_state 0)) \<and> within_clamps (simulation damp_state)
   \<and> fst (get_map plain_host zones (const_draw (1 / 2)) (initial_state 0)) ! 0
      = zone_def.extend (zones ! 0) \<lparr>score = lit 0.47, zone_severity = Medium\<rparr>
   \<and> zone_score64 (zones ! 0) (simulation damp_state) (noise64 (const_draw (1 / 2) 0))
      = Num (6305039478318695 / 9007199254740992)
   \<and> lit 0.7 = Num (6305039478318694 / 9007199254740992)
   \<and> fst (get_map plain_host zones (const_draw (1 / 2)) damp_state) ! 0
      = zone_def.extend (zones ! 0) \<lparr>score = lit 0.7, zone_severity = High\<rparr>"
proof -
  have i: "0 < length zones" by (simp add: zones_def)
  have u: "0 \<le> const_draw (1 / 2) 0" "const_draw (1 / 2) 0 \<le> 1 - 1 / 2 ^ 53"
    by (simp_all add: const_draw_def)
  have w: "within_clamps (simulation (initial_state 0))" "within_clamps (simulation damp_state)"
    by (simp_all add: initial_state_def damp_state_def within_clamps_def in_range_def)
  have l: "lit 0.7 = Num (6305039478318694 / 9007199254740992)"
    by (simp add: lit_values)
  have "fst (get_map plain_host zones (const_draw (1 / 2)) (initial_state 0)) ! 0
      = zone_def.extend (zones ! 0) \<lparr>score = lit 0.47, zone_severity = Medium\<rparr>"
    using get_map_zone_rows [where i = 0 and zs = zones and u = "const_draw (1 / 2)"
        and h = plain_host and st = "initial_state 0", OF i u]
    unfolding zone_score64_fresh
    by (simp add: in_range_def value_of_def lit_47_hundredths severity_of64_def lit_values js_gt_def)
  moreover have "fst (get_map plain_host zones (const_draw (1 / 2)) damp_state) ! 0
      = zone_def.extend (zones ! 0) \<lparr>score = lit 0.7, zone_severity = High\<rparr>"
    using get_map_zone_rows [where i = 0 and zs = zones and u = "const_draw (1 / 2)"
        and h = plain_host and st = damp_state, OF i u]
    unfolding zone_score64_damp
    by (simp add: in_range_def value_of_def fl_7_tenths severity_of64_def lit_values js_gt_def)
  ultimately show ?thesis using i u w l zone_score64_damp by blast
qed

text \<open>
  C8, as the claim states it, fails: the score a zone is annotated with is the rounded
  one.  With 200 mm of rain and the draw 5/64 the first zone has \<open>s = 0.70390625\<close>; the row
  returned carries the score 0.7, which is not above 0.7, and the severity High.
\<close>

theorem get_map_score_rounded:
  "score (fst (get_map plain_host zones (const_draw (5 / 64)) rainy_state) ! 0) = lit 0.7
   \<and> zone_severity (fst (get_map plain_host zones (const_draw (5 / 64)) rainy_state) ! 0) = High
   \<and> severity_of64 (score (fst (get_map plain_host zones (const_draw (5 / 64)) rainy_state) ! 0))
      = Medium"
proof -
  have i: "0 < length zones" by (simp add: zones_def)
  have r: "in_range 0 1 (Num (3170111925203763 / 4503599627370496))"
    by (simp add: in_range_def)
  have "fst (get_map plain_host zones (const_draw (5 / 64)) rainy_state) ! 0
      = zone_def.extend (zones ! 0) \<lparr>score = lit 0.7, zone_severity = High\<rparr>"
    unfolding get_map_row [OF i] zone_score64_rainy score_rounded [OF r]
    by (simp add: value_of_def fl_7_tenths severity_of64_def lit_values js_gt_def)
  then show ?thesis
    by (simp add: zone_def.extend_def severity_of64_tiers(4))
qed

section \<open>Rule 1 in binary64\<close>

text \<open>
  With the program's zones and a state within its clamps, the number read from the risk
  score computed in binary64 is at most 7, as it is at exact values: the threshold 7.5 of
  rule 1 is not reached in either arithmetic.
\<close>

lemma fl_7: "fl 7 = 7"
  using fl_near [of 50 7 7881299347898368] by simp

lemma risk_number64_below_rule1:
  assumes "within_clamps sim"
  shows "js_lt (risk_number64 h zones sim) (Num 7.5)"
proof -
  note c = risk64_close [OF assms]
  note b = composite_zones_bounds [OF assms]
  note n = risk_number64_round [OF assms]
  have "\<bar>risk64 zones sim - composite zones sim * 10\<bar> \<le> 1 / 10"
    using c(2) by (rule order_trans) simp
  then have "risk64 zones sim \<le> 7" using b(2) by linarith
  then have "risk64 zones sim \<le> real 7" by simp
  note r = round_to_range [OF n(1) this, of 1]
  have "fl (round_to 1 (risk64 zones sim)) \<le> fl 7"
    using r by (intro fl_mono_nonneg) simp_all
  then show ?thesis by (simp add: n(4) fl_7)
qed

end
